theory Spec2Isabelle
  imports Complex_Main "HOL-Library.AList" "HOL-Library.Log_Nat"
begin

section \<open>Exceptions\<close>

text \<open>
  Every exception the modelled Python code raises is a value of \<open>error\<close>. A function
  that can raise returns \<open>error + 'a\<close> (\<open>Inl\<close> the exception); a method that also
  mutates the \<open>MusicCat\<close> object returns \<open>error option \<times> musiccat\<close>: the exception
  raised, if any, next to the object as the method left it.
\<close>

datatype error =
    YAMLError
  | OSError
  | KeyError string
  | KeyErrorNone
  | TypeError
  | ValueError
  | ZeroDivisionError
  | SongIdConflictError string
  | FileNotFoundError string
  | NoMatchError string
  | BadMatchError string "string option"

section \<open>Strings\<close>

text \<open>
  A Python \<open>str\<close> is modelled as a \<open>string\<close> whose characters stand for the code
  points below 256. \<open>isspace\<close> and \<open>lower\<close> follow Python on that range.
\<close>

definition isspace :: "char \<Rightarrow> bool" where
  "isspace c = ((of_char c :: nat) \<in> {9, 10, 11, 12, 13, 28, 29, 30, 31, 32, 133, 160})"

definition lower_char :: "char \<Rightarrow> char" where
  "lower_char c =
     (let n = (of_char c :: nat)
      in if (65 \<le> n \<and> n \<le> 90) \<or> (192 \<le> n \<and> n \<le> 222 \<and> n \<noteq> 215)
         then char_of (n + 32) else c)"

definition lower :: "string \<Rightarrow> string" where
  "lower s = map lower_char s"

text \<open>\<open>str.split()\<close> without arguments: the maximal runs of non-whitespace.\<close>

fun split_from :: "string \<Rightarrow> string \<Rightarrow> string list" where
  "split_from word [] = (if word = [] then [] else [word])"
| "split_from word (c # cs) =
     (if isspace c
      then (if word = [] then split_from [] cs else word # split_from [] cs)
      else split_from (word @ [c]) cs)"

definition split :: "string \<Rightarrow> string list" where
  "split s = split_from [] s"

definition endswith :: "string \<Rightarrow> string \<Rightarrow> bool" where
  "endswith s suffix =
     (length suffix \<le> length s \<and> drop (length s - length suffix) s = suffix)"

section \<open>The similarity function\<close>

text \<open>
  Modelled from the spec: \<open>Levenshtein.ratio\<close> belongs to the python-Levenshtein
  package, which is not part of the source tree. The spec (section 4.3) gives it as the
  normalised edit-distance ratio, one minus the distance over the combined length, with
  1.0 for identical strings and 0.0 for maximally dissimilar ones; the package computes
  the distance with insertions and deletions costing 1 and a substitution costing 2, and
  returns 1.0 for two empty strings. Ratios are exact rationals here, where Python has
  the double nearest to the quotient.
\<close>

fun edit_distance :: "'a list \<Rightarrow> 'a list \<Rightarrow> nat" where
  "edit_distance [] ys = length ys"
| "edit_distance (x # xs) [] = Suc (length xs)"
| "edit_distance (x # xs) (y # ys) =
     min (min (Suc (edit_distance xs (y # ys))) (Suc (edit_distance (x # xs) ys)))
         (edit_distance xs ys + (if x = y then 0 else 2))"

definition lev_ratio :: "string \<Rightarrow> string \<Rightarrow> rat" where
  "lev_ratio a b =
     (let lensum = length a + length b
      in if lensum = 0 then 1
         else (of_nat lensum - of_nat (edit_distance a b)) / of_nat lensum)"

section \<open>Python floats\<close>

text \<open>
  A Python float is an IEEE 754 double. A double is modelled by the rational number it
  stands for, and every arithmetic operation of the code by the exact operation followed
  by \<open>double\<close>, the rounding to the nearest number with a significand of 53 bits, ties
  to the even significand. The exponent range is not bounded: the numbers of the search
  are far from overflow and from the subnormal range. \<open>exponent x\<close> is the \<open>e\<close> with
  \<open>2 ^ e \<le> x < 2 ^ (e + 1)\<close>, for a positive \<open>x\<close>.
\<close>

definition pow2 :: "int \<Rightarrow> rat" where
  "pow2 e = (if 0 \<le> e then 2 ^ nat e else 1 / 2 ^ nat (- e))"

definition exponent :: "rat \<Rightarrow> int" where
  "exponent x =
     (if 1 \<le> x then bitlen \<lfloor>x\<rfloor> - 1
      else (let k = bitlen \<lfloor>1 / x\<rfloor> - 1
            in if x * pow2 k = 1 then - k else - k - 1))"

definition double :: "rat \<Rightarrow> rat" where
  "double x =
     (if x = 0 then 0
      else (let a = \<bar>x\<bar>;
                q = pow2 (exponent a - 52);
                y = a / q;
                n = \<lfloor>y\<rfloor>;
                m = (if y - of_int n < 1 / 2 then n
                     else if 1 / 2 < y - of_int n then n + 1
                     else if even n then n else n + 1)
            in sgn x * of_int m * q))"

text \<open>
  \<open>Levenshtein.ratio\<close> as the package returns it: the quotient of two integers as a
  double.
\<close>

definition levenshtein_ratio :: "string \<Rightarrow> string \<Rightarrow> rat" where
  "levenshtein_ratio a b = double (lev_ratio a b)"

section \<open>Python loops and builtins\<close>

text \<open>
  A \<open>for\<close> loop over a list whose body may raise: the first exception ends the loop
  and leaves the state as the body left it.
\<close>

fun for_each :: "('a \<Rightarrow> 's \<Rightarrow> error option \<times> 's) \<Rightarrow> 'a list \<Rightarrow> 's \<Rightarrow> error option \<times> 's" where
  "for_each body [] s = (None, s)"
| "for_each body (x # xs) s =
     (case body x s of
        (Some e, s') \<Rightarrow> (Some e, s')
      | (None, s') \<Rightarrow> for_each body xs s')"

text \<open>\<open>max\<close> of an iterable raises \<open>ValueError\<close> on an empty one.\<close>

fun py_max :: "rat list \<Rightarrow> error + rat" where
  "py_max [] = Inl ValueError"
| "py_max (x # xs) = Inr (fold max xs x)"

section \<open>Data model (musiccat/__init__.py)\<close>

text \<open>The named tuples \<open>Game\<close> and \<open>Song\<close>.\<close>

record game =
  game_id :: string
  game_title :: string
  game_platform :: string
  game_year :: string
  game_series :: "string option"
  game_path :: string

record song =
  song_id :: string
  song_title :: string
  song_path :: string
  song_types :: "string list"
  song_game :: game
  song_fullpath :: string

text \<open>
  What \<open>yaml.load\<close> returns for a metadata file: a mapping, with each known key either
  present or absent, and the names of all further keys (\<open>fullpath\<close> and \<open>game\<close> among
  them, if an entry declares them). Values are taken to be strings.
\<close>

record songdata =
  sd_id :: "string option"
  sd_title :: "string option"
  sd_path :: "string option"
  sd_type :: "string option"
  sd_types :: "string list option"
  sd_other :: "string list"

record gamedata =
  gd_id :: "string option"
  gd_title :: "string option"
  gd_platform :: "string option"
  gd_year :: "string option"
  gd_series :: "string option"
  gd_path :: "string option"
  gd_songs :: "songdata list option"
  gd_other :: "string list"

text \<open>
  The operating system as the code uses it: \<open>os.walk\<close> (the file names of each
  directory), \<open>os.path.join\<close>, \<open>os.path.dirname\<close>, \<open>os.path.isfile\<close>, and
  \<open>open\<close> followed by \<open>yaml.load\<close>, which fails on an unreadable or malformed file.
\<close>

record os =
  walk :: "string \<Rightarrow> (string \<times> string list) list"
  path_join :: "string \<Rightarrow> string \<Rightarrow> string"
  dirname :: "string \<Rightarrow> string"
  isfile :: "string \<Rightarrow> bool"
  load_yaml :: "string \<Rightarrow> error + gamedata"

datatype log_entry =
    LogConflict string string string
  | LogConflictSameGame string string
  | LogNoBrstm string string
  | LogLoadException string error
  | LogNoMetadata string

text \<open>
  The \<open>MusicCat\<close> object. \<open>songs\<close> is a Python dict: an association list with
  distinct keys in insertion order, written with \<open>AList.update\<close> (a new key goes to the
  end, an existing key keeps its place and gets the new value). \<open>log\<close> collects what
  was sent to the logger. The player fields are left out.
\<close>

record musiccat =
  library_path :: string
  disable_nobrstm_exception :: bool
  disable_id_conflict_exception :: bool
  songs :: "(string \<times> song) list"
  log :: "log_entry list"

definition log_error :: "log_entry \<Rightarrow> musiccat \<Rightarrow> musiccat" where
  "log_error entry self = self\<lparr>log := log self @ [entry]\<rparr>"

definition log_warn :: "log_entry \<Rightarrow> musiccat \<Rightarrow> musiccat" where
  "log_warn entry self = self\<lparr>log := log self @ [entry]\<rparr>"

section \<open>Importing one metadata document\<close>

text \<open>
  \<open>Game(**gamedata)\<close> after \<open>songs\<close> was popped and \<open>series\<close> defaulted: a
  \<open>TypeError\<close> unless exactly the fields of the tuple are given.
\<close>

definition make_game :: "gamedata \<Rightarrow> error + game" where
  "make_game gamedata =
     (case (gd_id gamedata, gd_title gamedata, gd_platform gamedata, gd_year gamedata,
            gd_path gamedata) of
        (Some i, Some t, Some p, Some y, Some d) \<Rightarrow>
          if gd_other gamedata = []
          then Inr \<lparr>game_id = i, game_title = t, game_platform = p, game_year = y,
                    game_series = gd_series gamedata, game_path = d\<rparr>
          else Inl TypeError
      | _ \<Rightarrow> Inl TypeError)"

text \<open>
  Lines 103 to 110: \<open>fullpath\<close> and \<open>game\<close> are set, over what the entry may have
  declared under these keys, a single \<open>type\<close> becomes the list \<open>types\<close>, and
  \<open>Song(**song)\<close> builds the tuple: a \<open>TypeError\<close> if a field is missing or a key is
  no field.
\<close>

definition make_song :: "os \<Rightarrow> string \<Rightarrow> game \<Rightarrow> songdata \<Rightarrow> error + song" where
  "make_song os path g sd =
     (case sd_path sd of
        None \<Rightarrow> Inl (KeyError ''path'')
      | Some p \<Rightarrow>
          (let fullpath = path_join os path p;
               types = (case sd_type sd of Some t \<Rightarrow> Some [t] | None \<Rightarrow> sd_types sd)
           in case (sd_id sd, sd_title sd, types) of
                (Some i, Some t, Some ts) \<Rightarrow>
                  if filter (\<lambda>key. key \<noteq> ''fullpath'' \<and> key \<noteq> ''game'') (sd_other sd) = []
                  then Inr \<lparr>song_id = i, song_title = t, song_path = p, song_types = ts,
                            song_game = g, song_fullpath = fullpath\<rparr>
                  else Inl TypeError
              | _ \<Rightarrow> Inl TypeError))"

text \<open>The body of the loop over the songs of a document, lines 103 to 129.\<close>

definition import_song ::
  "os \<Rightarrow> string \<Rightarrow> game \<Rightarrow> (string \<times> song) list \<Rightarrow> songdata \<Rightarrow> musiccat
     \<Rightarrow> error option \<times> musiccat" where
  "import_song os path g newsongs sd self =
     (case make_song os path g sd of
        Inl e \<Rightarrow> (Some e, self)
      | Inr newsong \<Rightarrow>
          (let self1 = (case map_of (songs self) (song_id newsong) of
                          Some old \<Rightarrow>
                            log_error (LogConflict (song_id newsong)
                                         (game_id (song_game old)) (game_id g)) self
                        | None \<Rightarrow> self)
           in if map_of (songs self) (song_id newsong) \<noteq> None
                 \<and> \<not> disable_id_conflict_exception self
              then (Some (SongIdConflictError (song_id newsong)), self1)
              else
                (let self2 = (if map_of newsongs (song_id newsong) \<noteq> None
                              then log_error (LogConflictSameGame (song_id newsong)
                                                (game_id g)) self1
                              else self1)
                 in if map_of newsongs (song_id newsong) \<noteq> None
                       \<and> \<not> disable_id_conflict_exception self
                    then (Some (SongIdConflictError (song_id newsong)), self2)
                    else
                      (let self3 = (if \<not> isfile os (song_fullpath newsong)
                                    then log_error (LogNoBrstm (song_id newsong)
                                                      (song_fullpath newsong)) self2
                                    else self2)
                       in if \<not> isfile os (song_fullpath newsong)
                             \<and> \<not> disable_nobrstm_exception self
                          then (Some (FileNotFoundError (song_fullpath newsong)), self3)
                          else (None,
                                self3\<lparr>songs := AList.update (song_id newsong) newsong
                                                  (songs self3)\<rparr>)))))"

text \<open>
  \<open>_import_metadata\<close>. The dict \<open>newsongs\<close> is created empty and never written.
\<close>

definition import_metadata :: "os \<Rightarrow> string \<Rightarrow> musiccat \<Rightarrow> error option \<times> musiccat" where
  "import_metadata os metafilename self =
     (case load_yaml os metafilename of
        Inl e \<Rightarrow> (Some e, self)
      | Inr gamedata \<Rightarrow>
          (let path = dirname os metafilename;
               newsongs = []
           in case gd_songs gamedata of
                None \<Rightarrow> (Some (KeyError ''songs''), self)
              | Some sds \<Rightarrow>
                  (case make_game gamedata of
                     Inl e \<Rightarrow> (Some e, self)
                   | Inr g \<Rightarrow> for_each (import_song os path g newsongs) sds self)))"

section \<open>Refreshing the catalog\<close>

text \<open>
  The \<open>try\<close> statement of \<open>refresh_song_list\<close>, lines 67 to 70: whatever the import
  raises is logged and not raised again.
\<close>

definition try_import :: "os \<Rightarrow> string \<Rightarrow> musiccat \<Rightarrow> error option \<times> musiccat" where
  "try_import os metafilename self =
     (case import_metadata os metafilename self of
        (Some e, self') \<Rightarrow> (None, log_error (LogLoadException metafilename e) self')
      | (None, self') \<Rightarrow> (None, self'))"

text \<open>The body of the inner loop of \<open>refresh_song_list\<close>.\<close>

definition load_file :: "os \<Rightarrow> string \<Rightarrow> string \<Rightarrow> musiccat \<Rightarrow> error option \<times> musiccat" where
  "load_file os root_dir filename self =
     (if endswith filename ''.yaml''
      then (let metafilename = path_join os root_dir filename
            in try_import os metafilename self)
      else (None, self))"

definition refresh_song_list :: "os \<Rightarrow> musiccat \<Rightarrow> error option \<times> musiccat" where
  "refresh_song_list os self =
     (case for_each (\<lambda>(root_dir, files). for_each (load_file os root_dir) files)
             (walk os (library_path self)) (self\<lparr>songs := []\<rparr>) of
        (Some e, self') \<Rightarrow> (Some e, self')
      | (None, self') \<Rightarrow>
          if length (songs self') = 0
          then (None, log_warn (LogNoMetadata (library_path self')) self')
          else (None, self'))"

text \<open>\<open>__init__\<close>.\<close>

definition init :: "os \<Rightarrow> string \<Rightarrow> bool \<Rightarrow> bool \<Rightarrow> bool \<Rightarrow> error option \<times> musiccat" where
  "init os lib no_brstm no_conflict no_auto_load =
     (let self = \<lparr>library_path = lib, disable_nobrstm_exception = no_brstm,
                   disable_id_conflict_exception = no_conflict, songs = [], log = []\<rparr>
      in if \<not> no_auto_load then refresh_song_list os self else (None, self))"

text \<open>
  The objects a caller can hold: built by the constructor, then refreshed or fed a
  document any number of times, on any file system.
\<close>

inductive reachable :: "musiccat \<Rightarrow> bool" where
  reach_init: "reachable (snd (init os lib no_brstm no_conflict no_auto_load))"
| reach_refresh: "reachable self \<Longrightarrow> reachable (snd (refresh_song_list os self))"
| reach_import: "reachable self \<Longrightarrow> reachable (snd (import_metadata os metafilename self))"

section \<open>Keyword search (musiccat/__init__.py, \<open>search\<close>)\<close>

text \<open>
  The similarity function is a parameter \<open>ratio\<close>; its values and the cutoff are
  doubles. The product, the sum and the quotient of the code are rounded as Python rounds
  them; \<open>0.8\<close> and \<open>0.7\<close> are the doubles nearest to 8/10 and 7/10. The haystacks are
  Python sets; only their maximum is taken, so a list without duplicates stands for them.
\<close>

definition subratio :: "(string \<Rightarrow> string \<Rightarrow> rat) \<Rightarrow> string list \<Rightarrow> string list \<Rightarrow> string \<Rightarrow> error + rat" where
  "subratio ratio haystack1 haystack2 keyword0 =
     (let keyword = lower keyword0
      in case py_max (map (ratio keyword) haystack1) of
           Inl e \<Rightarrow> Inl e
         | Inr subratio1 \<Rightarrow>
             (case py_max (map (ratio keyword) haystack2) of
                Inl e \<Rightarrow> Inl e
              | Inr subratio2 \<Rightarrow> Inr (max subratio1 (double (subratio2 * double (8 / 10))))))"

fun keyword_loop ::
  "(string \<Rightarrow> string \<Rightarrow> rat) \<Rightarrow> string list \<Rightarrow> string list \<Rightarrow> string list \<Rightarrow> rat \<Rightarrow> error + rat" where
  "keyword_loop ratio haystack1 haystack2 [] r = Inr r"
| "keyword_loop ratio haystack1 haystack2 (keyword # keywords) r =
     (case subratio ratio haystack1 haystack2 keyword of
        Inl e \<Rightarrow> Inl e
      | Inr sr \<Rightarrow>
          keyword_loop ratio haystack1 haystack2 keywords
            (if sr > double (7 / 10) then double (r + sr) else r))"

definition song_ratio :: "(string \<Rightarrow> string \<Rightarrow> rat) \<Rightarrow> string list \<Rightarrow> song \<Rightarrow> error + rat" where
  "song_ratio ratio keywords s =
     (let num_keywords = length keywords;
          haystack1 = remdups (split (lower (song_title s)));
          haystack2 = remdups (split (lower (game_title (song_game s))))
      in case keyword_loop ratio haystack1 haystack2 keywords 0 of
           Inl e \<Rightarrow> Inl e
         | Inr r \<Rightarrow>
             if num_keywords = 0 then Inl ZeroDivisionError
             else Inr (double (r / of_nat num_keywords)))"

fun song_loop ::
  "(string \<Rightarrow> string \<Rightarrow> rat) \<Rightarrow> string list \<Rightarrow> rat \<Rightarrow> song list \<Rightarrow> (song \<times> rat) list
     \<Rightarrow> error + (song \<times> rat) list" where
  "song_loop ratio keywords cutoff [] results = Inr results"
| "song_loop ratio keywords cutoff (s # ss) results =
     (case song_ratio ratio keywords s of
        Inl e \<Rightarrow> Inl e
      | Inr r \<Rightarrow>
          song_loop ratio keywords cutoff ss
            (if r > cutoff then results @ [(s, r)] else results))"

text \<open>
  \<open>sorted(results, key=lambda s: s[1], reverse=True)\<close> is a stable sort by descending
  ratio, as \<open>sort_key\<close> on the negated ratio is.
\<close>

definition search ::
  "(string \<Rightarrow> string \<Rightarrow> rat) \<Rightarrow> (string \<times> song) list \<Rightarrow> string list \<Rightarrow> rat
     \<Rightarrow> error + (song \<times> rat) list" where
  "search ratio self_songs keywords cutoff =
     (case song_loop ratio keywords cutoff (map snd self_songs) [] of
        Inl e \<Rightarrow> Inl e
      | Inr results \<Rightarrow> Inr (sort_key (\<lambda>p. - snd p) results))"

text \<open>
  The scoring rule in the words of the specification, for comparison with \<open>search\<close>:
  the sub-score of a keyword, the sub-scores that count (those above 0.7; the others
  contribute 0), and the score, their sum in keyword order divided by the number of
  keywords. The arithmetic is that of doubles.
\<close>

definition spec_subscore :: "(string \<Rightarrow> string \<Rightarrow> rat) \<Rightarrow> song \<Rightarrow> string \<Rightarrow> rat" where
  "spec_subscore ratio s keyword =
     max (Max (ratio (lower keyword) ` set (split (lower (song_title s)))))
         (double (Max (ratio (lower keyword) ` set (split (lower (game_title (song_game s)))))
                    * double (8 / 10)))"

definition spec_contributions :: "(string \<Rightarrow> string \<Rightarrow> rat) \<Rightarrow> song \<Rightarrow> string list \<Rightarrow> rat list" where
  "spec_contributions ratio s keywords =
     filter (\<lambda>c. c > double (7 / 10)) (map (spec_subscore ratio s) keywords)"

definition spec_score :: "(string \<Rightarrow> string \<Rightarrow> rat) \<Rightarrow> song \<Rightarrow> string list \<Rightarrow> rat" where
  "spec_score ratio s keywords =
     double (foldl (\<lambda>total c. double (total + c)) 0 (spec_contributions ratio s keywords)
               / of_nat (length keywords))"

section \<open>Song id lookup (musiccat.py, \<open>search\<close>)\<close>

text \<open>
  The older module resolves one song id. Its two thresholds are attributes the module
  never assigns and \<open>BadMatchError\<close> is a class it never declares; they are taken as
  given. The loop keeps the first key, in dict order, of the highest ratio above 0.
\<close>

definition best_step ::
  "(string \<Rightarrow> string \<Rightarrow> rat) \<Rightarrow> string \<Rightarrow> string \<Rightarrow> rat \<times> string option \<Rightarrow> rat \<times> string option" where
  "best_step ratio songid s best =
     (if ratio songid s > fst best then (ratio songid s, Some s) else best)"

definition search_songid ::
  "(string \<Rightarrow> string \<Rightarrow> rat) \<Rightarrow> rat \<Rightarrow> rat \<Rightarrow> (string \<times> 'v) list \<Rightarrow> string \<Rightarrow> error + 'v" where
  "search_songid ratio minimum_autocorrect_ratio minimum_match_ratio self_songs songid =
     (case map_of self_songs songid of
        Some found \<Rightarrow> Inr found
      | None \<Rightarrow>
          (let best = fold (best_step ratio songid) (map fst self_songs) (0, None);
               best_ratio = fst best;
               best_match = snd best
           in if best_ratio < minimum_autocorrect_ratio
              then Inl (BadMatchError songid best_match)
              else if best_ratio < minimum_match_ratio
              then Inl (NoMatchError songid)
              else (case best_match of
                      None \<Rightarrow> Inl KeyErrorNone
                    | Some k \<Rightarrow>
                        (case map_of self_songs k of
                           None \<Rightarrow> Inl (KeyError k)
                         | Some found \<Rightarrow> Inr found))))"

text \<open>The invariant of the song dict: each key is the id of its song.\<close>

definition keys_are_ids :: "musiccat \<Rightarrow> bool" where
  "keys_are_ids self = (\<forall>(k, s) \<in> set (songs self). song_id s = k)"

section \<open>Notions used to state the properties\<close>

text \<open>
  The metadata files that \<open>refresh_song_list\<close> hands to the import, in walk order, and
  the object after a list of them has gone through the \<open>try\<close> statement.
\<close>

definition metafiles :: "os \<Rightarrow> string \<Rightarrow> string list" where
  "metafiles os lib =
     concat (map (\<lambda>(root_dir, files).
                    map (path_join os root_dir)
                      (filter (\<lambda>filename. endswith filename ''.yaml'') files))
               (walk os lib))"



section \<open>A small library for the concrete cases\<close>

text \<open>
  Two games that both declare a song \<open>theme01\<close>, a file that does not parse and a file
  that is no metadata file. The audio file of the song \<open>town\<close> is missing. A third
  game, outside the walk, declares \<open>theme01\<close> once more, with a missing audio file.
\<close>

definition main_entry :: songdata where
  "main_entry =
     \<lparr>sd_id = Some ''theme01'', sd_title = Some ''Main Theme'', sd_path = Some ''main.brstm'',
      sd_type = Some ''title'', sd_types = None, sd_other = []\<rparr>"

definition boss_entry :: songdata where
  "boss_entry =
     \<lparr>sd_id = Some ''boss'', sd_title = Some ''Boss Theme'', sd_path = Some ''boss.brstm'',
      sd_type = None, sd_types = Some [''battle'', ''boss''], sd_other = []\<rparr>"

definition title_entry :: songdata where
  "title_entry =
     \<lparr>sd_id = Some ''theme01'', sd_title = Some ''Title Screen'', sd_path = Some ''title.brstm'',
      sd_type = Some ''title'', sd_types = None, sd_other = []\<rparr>"

definition town_entry :: songdata where
  "town_entry =
     \<lparr>sd_id = Some ''town'', sd_title = Some ''Town'', sd_path = Some ''town.brstm'',
      sd_type = Some ''town'', sd_types = None, sd_other = []\<rparr>"

definition opening_entry :: songdata where
  "opening_entry =
     \<lparr>sd_id = Some ''theme01'', sd_title = Some ''Opening'', sd_path = Some ''gone.brstm'',
      sd_type = Some ''title'', sd_types = None, sd_other = []\<rparr>"

definition red_data :: gamedata where
  "red_data =
     \<lparr>gd_id = Some ''red'', gd_title = Some ''Red'', gd_platform = Some ''gb'',
      gd_year = Some ''1996'', gd_series = None, gd_path = Some ''red'',
      gd_songs = Some [main_entry, boss_entry], gd_other = []\<rparr>"

definition blue_data :: gamedata where
  "blue_data =
     \<lparr>gd_id = Some ''blue'', gd_title = Some ''Blue'', gd_platform = Some ''gb'',
      gd_year = Some ''1996'', gd_series = None, gd_path = Some ''blue'',
      gd_songs = Some [title_entry, town_entry], gd_other = []\<rparr>"

definition green_data :: gamedata where
  "green_data =
     \<lparr>gd_id = Some ''green'', gd_title = Some ''Green'', gd_platform = Some ''gb'',
      gd_year = Some ''1996'', gd_series = None, gd_path = Some ''green'',
      gd_songs = Some [opening_entry], gd_other = []\<rparr>"

definition lib_os :: os where
  "lib_os =
     \<lparr>walk = (\<lambda>lib. [(lib, [''red.yaml'', ''notes.txt'', ''bad.yaml'', ''blue.yaml''])]),
      path_join = (\<lambda>a b. a @ ''/'' @ b),
      dirname = (\<lambda>f. rev (tl (dropWhile (\<lambda>c. c \<noteq> CHR ''/'') (rev f)))),
      isfile = (\<lambda>p. p \<noteq> ''lib/town.brstm'' \<and> p \<noteq> ''extra/gone.brstm''),
      load_yaml = (\<lambda>f. if f = ''lib/red.yaml'' then Inr red_data
                        else if f = ''lib/blue.yaml'' then Inr blue_data
                        else if f = ''extra/green.yaml'' then Inr green_data
                        else Inl YAMLError)\<rparr>"

definition red_game :: game where
  "red_game = \<lparr>game_id = ''red'', game_title = ''Red'', game_platform = ''gb'',
                game_year = ''1996'', game_series = None, game_path = ''red''\<rparr>"

definition blue_game :: game where
  "blue_game = \<lparr>game_id = ''blue'', game_title = ''Blue'', game_platform = ''gb'',
                 game_year = ''1996'', game_series = None, game_path = ''blue''\<rparr>"

definition main_song :: song where
  "main_song = \<lparr>song_id = ''theme01'', song_title = ''Main Theme'', song_path = ''main.brstm'',
                 song_types = [''title''], song_game = red_game,
                 song_fullpath = ''lib/main.brstm''\<rparr>"

definition boss_song :: song where
  "boss_song = \<lparr>song_id = ''boss'', song_title = ''Boss Theme'', song_path = ''boss.brstm'',
                 song_types = [''battle'', ''boss''], song_game = red_game,
                 song_fullpath = ''lib/boss.brstm''\<rparr>"

definition title_song :: song where
  "title_song = \<lparr>song_id = ''theme01'', song_title = ''Title Screen'', song_path = ''title.brstm'',
                  song_types = [''title''], song_game = blue_game,
                  song_fullpath = ''lib/title.brstm''\<rparr>"

definition town_song :: song where
  "town_song = \<lparr>song_id = ''town'', song_title = ''Town'', song_path = ''town.brstm'',
                 song_types = [''town''], song_game = blue_game,
                 song_fullpath = ''lib/town.brstm''\<rparr>"

definition green_game :: game where
  "green_game = \<lparr>game_id = ''green'', game_title = ''Green'', game_platform = ''gb'',
                  game_year = ''1996'', game_series = None, game_path = ''green''\<rparr>"

definition opening_song :: song where
  "opening_song = \<lparr>song_id = ''theme01'', song_title = ''Opening'', song_path = ''gone.brstm'',
                    song_types = [''title''], song_game = green_game,
                    song_fullpath = ''extra/gone.brstm''\<rparr>"

definition new_cat :: "bool \<Rightarrow> bool \<Rightarrow> musiccat" where
  "new_cat no_brstm no_conflict =
     \<lparr>library_path = ''lib'', disable_nobrstm_exception = no_brstm,
      disable_id_conflict_exception = no_conflict, songs = [], log = []\<rparr>"

text \<open>
  A song without a title, a song whose title is one long word, and a song found through
  the title of its game only.
\<close>

definition abcdef_song :: song where
  "abcdef_song = boss_song\<lparr>song_id := ''abcdef'', song_title := ''Abcdef''\<rparr>"

definition intro_song :: song where
  "intro_song = boss_song\<lparr>song_id := ''intro'', song_title := ''Intro'',
                            song_game := red_game\<lparr>game_title := ''Pokemonxy''\<rparr>\<rparr>"

definition untitled_song :: song where
  "untitled_song = boss_song\<lparr>song_id := ''untitled'', song_title := ''''\<rparr>"

definition pokemon_song :: song where
  "pokemon_song = boss_song\<lparr>song_id := ''pokemon'', song_title := ''Pokemondef''\<rparr>"



text \<open>The object after the first game was imported.\<close>

definition after_red :: "bool \<Rightarrow> bool \<Rightarrow> musiccat" where
  "after_red no_brstm no_conflict =
     (new_cat no_brstm no_conflict)\<lparr>songs := [(''theme01'', main_song), (''boss'', boss_song)]\<rparr>"

section \<open>The similarity function: range, identity, symmetry\<close>

lemma edit_distance_sym: "edit_distance xs ys = edit_distance ys xs"
proof (induction xs ys rule: edit_distance.induct)
  case (1 ys)
  then show ?case by (cases ys) simp_all
next
  case (2 x xs)
  then show ?case by simp
next
  case (3 x xs y ys)
  then show ?case by (simp add: min.commute eq_commute [of x y])
qed

lemma edit_distance_same: "edit_distance xs xs = 0"
  by (induction xs) simp_all

lemma edit_distance_le: "edit_distance xs ys \<le> length xs + length ys"
  by (induction xs ys rule: edit_distance.induct) (simp_all add: min_le_iff_disj)

lemma lev_ratio_nonneg: "0 \<le> lev_ratio a b"
proof -
  have "(of_nat (edit_distance a b) :: rat) \<le> of_nat (length a + length b)"
    using edit_distance_le [of a b] by (simp only: of_nat_le_iff)
  then show ?thesis
    by (simp add: lev_ratio_def Let_def)
qed

lemma lev_ratio_le_1: "lev_ratio a b \<le> 1"
proof (cases "length a + length b = 0")
  case True
  then show ?thesis by (simp add: lev_ratio_def)
next
  case False
  then have "0 < length a + length b"
    by simp
  then have pos: "0 < (of_nat (length a + length b) :: rat)"
    by (simp only: of_nat_0_less_iff)
  have "(of_nat (length a + length b) - of_nat (edit_distance a b)) / (of_nat (length a + length b) :: rat) \<le> 1"
    using pos by (simp add: divide_le_eq_1_pos)
  with False show ?thesis
    by (simp add: lev_ratio_def Let_def)
qed

lemma lev_ratio_sym: "lev_ratio a b = lev_ratio b a"
  by (simp add: lev_ratio_def Let_def edit_distance_sym [of a b] add.commute)

lemma lev_ratio_same: "lev_ratio s s = 1"
  by (simp add: lev_ratio_def Let_def edit_distance_same)

text \<open>Dropping or adding one character moves the distance by at most one.\<close>

lemma edit_distance_Nil2: "edit_distance xs [] = length xs"
  by (cases xs) simp_all

lemma edit_distance_drop_left: "edit_distance (x # xs) ys \<le> Suc (edit_distance xs ys)"
  by (cases ys) (simp_all add: edit_distance_Nil2 min_le_iff_disj)

lemma edit_distance_grow_right: "edit_distance xs ys \<le> Suc (edit_distance xs (y # ys))"
proof (induction xs)
  case Nil
  show ?case by simp
next
  case (Cons x xs)
  have "edit_distance (x # xs) ys \<le> Suc (edit_distance xs ys)"
    by (rule edit_distance_drop_left)
  with Cons show ?case
    by simp
qed

lemma edit_distance_grow_left: "edit_distance xs ys \<le> Suc (edit_distance (x # xs) ys)"
  using edit_distance_grow_right [of ys xs x] by (simp add: edit_distance_sym [of ys])

lemma edit_distance_Cons_same: "edit_distance (x # xs) (x # ys) = edit_distance xs ys"
  using edit_distance_grow_right [of xs ys x] edit_distance_grow_left [of xs ys x]
  by simp

lemma edit_distance_Cons_diff:
  "x \<noteq> y \<Longrightarrow> edit_distance (x # xs) (y # ys) =
     min (min (Suc (edit_distance xs (y # ys))) (Suc (edit_distance (x # xs) ys)))
         (edit_distance xs ys + 2)"
  by simp

lemma edit_distance_code [code]:
  "edit_distance [] ys = length ys"
  "edit_distance (x # xs) [] = Suc (length xs)"
  "edit_distance (x # xs) (y # ys) =
     (if x = y then edit_distance xs ys
      else min (min (Suc (edit_distance xs (y # ys))) (Suc (edit_distance (x # xs) ys)))
               (edit_distance xs ys + 2))"
proof -
  show "edit_distance [] ys = length ys"
    by simp
  show "edit_distance (x # xs) [] = Suc (length xs)"
    by simp
  show "edit_distance (x # xs) (y # ys) =
     (if x = y then edit_distance xs ys
      else min (min (Suc (edit_distance xs (y # ys))) (Suc (edit_distance (x # xs) ys)))
               (edit_distance xs ys + 2))"
  proof (cases "x = y")
    case True
    have "edit_distance (y # xs) (y # ys) = edit_distance xs ys"
      by (rule edit_distance_Cons_same)
    with True show ?thesis
      by (simp del: edit_distance.simps)
  next
    case False
    with edit_distance_Cons_diff [OF False, of xs ys] show ?thesis
      by (simp del: edit_distance.simps)
  qed
qed

text \<open>
  Claim C9. The similarity function returns a ratio between 0 and 1, is symmetric in its
  arguments, and gives 1 for a string compared with itself (the empty string included).
\<close>

theorem lev_ratio_properties:
  "0 \<le> lev_ratio a b \<and> lev_ratio a b \<le> 1 \<and> lev_ratio a b = lev_ratio b a \<and> lev_ratio s s = 1"
  using lev_ratio_nonneg [of a b] lev_ratio_le_1 [of a b] lev_ratio_sym [of a b]
    lev_ratio_same [of s]
  by simp

section \<open>Song id lookup\<close>

text \<open>
  Claim C5. A song id that is a key of the dict is answered with the song stored under
  it, whatever the similarity function and the two thresholds are.
\<close>

theorem search_songid_exact:
  "map_of self_songs songid = Some found \<Longrightarrow>
   search_songid ratio minimum_autocorrect_ratio minimum_match_ratio self_songs songid = Inr found"
  by (simp add: search_songid_def)

theorem search_songid_exact_witness:
  "map_of [(''boss'', 1 :: nat), (''town'', 2)] ''town'' = Some 2 \<and>
   search_songid (\<lambda>a b. 0) 2 3 [(''boss'', 1 :: nat), (''town'', 2)] ''town'' = Inr 2"
  using search_songid_exact [of "[(''boss'', 1 :: nat), (''town'', 2)]" "''town''" 2 "\<lambda>a b. 0" 2 3]
  by simp

text \<open>
  What the loop of \<open>search\<close> computes: the highest ratio over the keys, or 0 if none is
  above 0, and a key of that ratio if one is above 0.
\<close>

lemma fold_best_step_ratio:
  "fst (fold (best_step ratio songid) ks best) = Max (insert (fst best) (ratio songid ` set ks))"
proof (induction ks arbitrary: best)
  case Nil
  show ?case by simp
next
  case (Cons k ks)
  have step: "fst (best_step ratio songid k best) = max (ratio songid k) (fst best)"
    by (simp add: best_step_def max_def)
  have "Max (insert (max (ratio songid k) (fst best)) (ratio songid ` set ks))
      = Max (insert (fst best) (insert (ratio songid k) (ratio songid ` set ks)))"
    by (cases "set ks = {}") (simp_all add: max.assoc max.commute max.left_commute)
  with Cons.IH [of "best_step ratio songid k best"] step show ?case
    by simp
qed

lemma fold_best_step_match:
  assumes "snd best = None \<or> (\<exists>k \<in> A. snd best = Some k \<and> ratio songid k = fst best)"
    and "set ks \<subseteq> A"
  shows "snd (fold (best_step ratio songid) ks best) = None
       \<or> (\<exists>k \<in> A. snd (fold (best_step ratio songid) ks best) = Some k
             \<and> ratio songid k = fst (fold (best_step ratio songid) ks best))"
  using assms
proof (induction ks arbitrary: best)
  case Nil
  then show ?case by simp
next
  case (Cons k ks)
  have "snd (best_step ratio songid k best) = None
      \<or> (\<exists>j \<in> A. snd (best_step ratio songid k best) = Some j
            \<and> ratio songid j = fst (best_step ratio songid k best))"
    using Cons.prems by (auto simp: best_step_def)
  moreover have "set ks \<subseteq> A"
    using Cons.prems(2) by simp
  ultimately show ?case
    using Cons.IH [of "best_step ratio songid k best"] by simp
qed

lemma fold_best_step_matched:
  "snd best \<noteq> None \<Longrightarrow> snd (fold (best_step ratio songid) ks best) \<noteq> None"
proof (induction ks arbitrary: best)
  case Nil
  then show ?case by simp
next
  case (Cons k ks)
  then have "snd (best_step ratio songid k best) \<noteq> None"
    by (simp add: best_step_def)
  from Cons.IH [OF this] show ?case
    by simp
qed

lemma fold_best_step_unmatched:
  "snd (fold (best_step ratio songid) ks best) = None \<Longrightarrow>
   fst (fold (best_step ratio songid) ks best) = fst best"
proof (induction ks arbitrary: best)
  case Nil
  show ?case by simp
next
  case (Cons k ks)
  from Cons.prems have none: "snd (fold (best_step ratio songid) ks (best_step ratio songid k best)) = None"
    by simp
  with fold_best_step_matched [of "best_step ratio songid k best" ratio songid ks]
  have "snd (best_step ratio songid k best) = None"
    by blast
  then have "best_step ratio songid k best = best"
    by (simp add: best_step_def split: if_splits)
  with Cons.IH [OF none] show ?case
    by simp
qed

text \<open>
  The three tiers as the code has them, for a song id that is no key; \<open>best\<close> is the
  highest ratio over the keys, or 0.
\<close>

lemma search_songid_tiers:
  assumes "map_of self_songs songid = None"
    and "best = Max (insert 0 (ratio songid ` fst ` set self_songs))"
  shows "best < minimum_autocorrect_ratio \<longrightarrow>
           (\<exists>suggestion. search_songid ratio minimum_autocorrect_ratio minimum_match_ratio
                             self_songs songid = Inl (BadMatchError songid suggestion))"
    and "minimum_autocorrect_ratio \<le> best \<and> best < minimum_match_ratio \<longrightarrow>
           search_songid ratio minimum_autocorrect_ratio minimum_match_ratio self_songs songid
             = Inl (NoMatchError songid)"
    and "minimum_autocorrect_ratio \<le> best \<and> minimum_match_ratio \<le> best \<and> 0 < best \<longrightarrow>
           (\<exists>k found. search_songid ratio minimum_autocorrect_ratio minimum_match_ratio
                           self_songs songid = Inr found
                \<and> map_of self_songs k = Some found \<and> ratio songid k = best)"
proof -
  let ?run = "fold (best_step ratio songid) (map fst self_songs) (0, None)"
  have ratio: "fst ?run = best"
    using fold_best_step_ratio [of ratio songid "map fst self_songs" "(0, None)"]
    by (simp add: assms(2))
  show "best < minimum_autocorrect_ratio \<longrightarrow>
           (\<exists>suggestion. search_songid ratio minimum_autocorrect_ratio minimum_match_ratio
                             self_songs songid = Inl (BadMatchError songid suggestion))"
    using assms(1) ratio by (simp add: search_songid_def Let_def)
  show "minimum_autocorrect_ratio \<le> best \<and> best < minimum_match_ratio \<longrightarrow>
           search_songid ratio minimum_autocorrect_ratio minimum_match_ratio self_songs songid
             = Inl (NoMatchError songid)"
    using assms(1) ratio by (simp add: search_songid_def Let_def)
  show "minimum_autocorrect_ratio \<le> best \<and> minimum_match_ratio \<le> best \<and> 0 < best \<longrightarrow>
           (\<exists>k found. search_songid ratio minimum_autocorrect_ratio minimum_match_ratio
                           self_songs songid = Inr found
                \<and> map_of self_songs k = Some found \<and> ratio songid k = best)"
  proof
    assume tier: "minimum_autocorrect_ratio \<le> best \<and> minimum_match_ratio \<le> best \<and> 0 < best"
    have "snd ?run \<noteq> None"
    proof
      assume "snd ?run = None"
      from fold_best_step_unmatched [OF this] ratio tier show False
        by simp
    qed
    moreover have "snd ?run = None
        \<or> (\<exists>k \<in> fst ` set self_songs. snd ?run = Some k \<and> ratio songid k = fst ?run)"
      by (rule fold_best_step_match) simp_all
    ultimately obtain k where key: "k \<in> fst ` set self_songs" and match: "snd ?run = Some k"
      and same: "ratio songid k = best"
      using ratio by auto
    from key obtain found where found: "map_of self_songs k = Some found"
      using map_of_eq_None_iff [of self_songs k] by auto
    have "search_songid ratio minimum_autocorrect_ratio minimum_match_ratio self_songs songid
        = Inr found"
      using assms(1) ratio tier match found by (simp add: search_songid_def Let_def)
    with found same show "\<exists>k found. search_songid ratio minimum_autocorrect_ratio
        minimum_match_ratio self_songs songid = Inr found
        \<and> map_of self_songs k = Some found \<and> ratio songid k = best"
      by blast
  qed
qed

text \<open>
  Claim C1. For a song id that is no key, the specification has \<open>NoMatch\<close> below the
  lower threshold and a suggestion between the thresholds. The code has them the other
  way round. With the keys \<open>ab\<close> and \<open>cd\<close>, thresholds 0.3 and 0.8: the id
  \<open>xxxxxxa\<close> (best ratio 2/9, below both) raises \<open>BadMatchError\<close> carrying \<open>ab\<close>,
  and the id \<open>a\<close> (best ratio 2/3, between them) raises \<open>NoMatchError\<close>.
\<close>

theorem search_songid_tiers_swapped:
  "lev_ratio ''xxxxxxa'' ''ab'' = 2 / 9 \<and> lev_ratio ''xxxxxxa'' ''cd'' = 0 \<and>
   search_songid lev_ratio (3 / 10) (8 / 10) [(''ab'', 1 :: nat), (''cd'', 2)] ''xxxxxxa''
     = Inl (BadMatchError ''xxxxxxa'' (Some ''ab'')) \<and>
   lev_ratio ''a'' ''ab'' = 2 / 3 \<and> lev_ratio ''a'' ''cd'' = 0 \<and>
   search_songid lev_ratio (3 / 10) (8 / 10) [(''ab'', 1 :: nat), (''cd'', 2)] ''a''
     = Inl (NoMatchError ''a'')"
  by (simp add: search_songid_def best_step_def lev_ratio_def)

section \<open>Keyword search with no keywords\<close>

text \<open>
  Claim C3. The specification wants an empty result for an empty keyword list. The code
  divides the ratio of the first song by the number of keywords: with at least one song
  in the dict and no keyword, \<open>search\<close> raises \<open>ZeroDivisionError\<close>.
\<close>

theorem search_no_keywords_divides_by_zero:
  "self_songs \<noteq> [] \<Longrightarrow> search ratio self_songs [] cutoff = Inl ZeroDivisionError"
  by (cases self_songs) (simp_all add: search_def song_ratio_def)

theorem search_no_keywords_divides_by_zero_witness:
  "[(''boss'', boss_song)] \<noteq> [] \<and>
   search lev_ratio [(''boss'', boss_song)] [] (3 / 10) = Inl ZeroDivisionError"
  using search_no_keywords_divides_by_zero [of "[(''boss'', boss_song)]" lev_ratio "3 / 10"]
  by simp

lemma search_no_keywords_no_songs: "search ratio [] [] cutoff = Inr []"
  by (simp add: search_def)

section \<open>Loops\<close>

lemma for_each_append:
  "for_each body (xs @ ys) s =
     (case for_each body xs s of
        (Some e, s') \<Rightarrow> (Some e, s')
      | (None, s') \<Rightarrow> for_each body ys s')"
  by (induction xs arbitrary: s) (auto split: prod.splits option.splits)

lemma for_each_raises:
  "for_each body xs s = (Some e, s') \<Longrightarrow>
   \<exists>pre x rest s1. xs = pre @ x # rest \<and> for_each body pre s = (None, s1)
       \<and> body x s1 = (Some e, s')"
proof (induction xs arbitrary: s)
  case Nil
  then show ?case by simp
next
  case (Cons a xs)
  obtain r s2 where step: "body a s = (r, s2)"
    by (cases "body a s")
  show ?case
  proof (cases r)
    case None
    with Cons.prems step have "for_each body xs s2 = (Some e, s')"
      by simp
    from Cons.IH [OF this] obtain pre x rest s1 where
      "xs = pre @ x # rest" "for_each body pre s2 = (None, s1)" "body x s1 = (Some e, s')"
      by blast
    with step None have "a # xs = (a # pre) @ x # rest \<and>
        for_each body (a # pre) s = (None, s1) \<and> body x s1 = (Some e, s')"
      by simp
    then show ?thesis by blast
  next
    case (Some e')
    with Cons.prems step have "a # xs = [] @ a # xs \<and> for_each body [] s = (None, s)
        \<and> body a s = (Some e, s')"
      by simp
    then show ?thesis by blast
  qed
qed

lemma for_each_preserves:
  assumes "\<And>x s. P s \<Longrightarrow> P (snd (body x s))" and "P s"
  shows "P (snd (for_each body xs s))"
  using assms(2)
proof (induction xs arbitrary: s)
  case Nil
  then show ?case by simp
next
  case (Cons a xs)
  obtain r s2 where step: "body a s = (r, s2)"
    by (cases "body a s")
  from assms(1) [OF Cons.prems, of a] step have "P s2"
    by simp
  from Cons.IH [OF this] step \<open>P s2\<close> show ?case
    by (cases r) simp_all
qed

section \<open>Keys and ids\<close>

lemma set_update_subset: "set (AList.update k v al) \<subseteq> insert (k, v) (set al)"
  by (induction al) auto

lemma make_song_id: "make_song os path g sd = Inr newsong \<Longrightarrow> sd_id sd = Some (song_id newsong)"
  by (auto simp: make_song_def Let_def split: option.splits if_splits)

lemma import_song_keys_are_ids:
  assumes "keys_are_ids self"
  shows "keys_are_ids (snd (import_song os path g newsongs sd self))"
proof (cases "make_song os path g sd")
  case (Inl e)
  with assms show ?thesis by (simp add: import_song_def)
next
  case (Inr newsong)
  have "set (AList.update (song_id newsong) newsong (songs self))
          \<subseteq> insert (song_id newsong, newsong) (set (songs self))"
    by (rule set_update_subset)
  with assms have "\<forall>(k, s) \<in> set (AList.update (song_id newsong) newsong (songs self)). song_id s = k"
    by (auto simp: keys_are_ids_def)
  with assms Inr show ?thesis
    by (simp add: import_song_def Let_def log_error_def keys_are_ids_def split: option.splits)
qed

lemma import_metadata_keys_are_ids:
  assumes "keys_are_ids self"
  shows "keys_are_ids (snd (import_metadata os metafilename self))"
proof -
  have "keys_are_ids (snd (for_each (import_song os path g newsongs) sds self))"
    for path g newsongs sds
    using import_song_keys_are_ids assms by (rule for_each_preserves)
  with assms show ?thesis
    by (simp add: import_metadata_def Let_def split: sum.splits option.splits)
qed

lemma try_import_keys_are_ids:
  assumes "keys_are_ids self"
  shows "keys_are_ids (snd (try_import os metafilename self))"
  using import_metadata_keys_are_ids [OF assms, of os metafilename]
  by (auto simp: try_import_def log_error_def keys_are_ids_def split: prod.splits option.splits)

lemma load_file_keys_are_ids:
  assumes "keys_are_ids self"
  shows "keys_are_ids (snd (load_file os root_dir filename self))"
  using try_import_keys_are_ids [OF assms] assms
  by (simp add: load_file_def Let_def)

lemma refresh_song_list_keys_are_ids: "keys_are_ids (snd (refresh_song_list os self))"
proof -
  have inner: "keys_are_ids (snd (for_each (load_file os root_dir) files s))"
    if "keys_are_ids s" for root_dir files s
    using load_file_keys_are_ids that by (rule for_each_preserves)
  have "keys_are_ids (snd ((case x of (root_dir, files) \<Rightarrow> for_each (load_file os root_dir) files) s))"
    if "keys_are_ids s" for x s
    using inner [OF that] by (cases x) simp
  moreover have "keys_are_ids (self\<lparr>songs := []\<rparr>)"
    by (simp add: keys_are_ids_def)
  ultimately have "keys_are_ids (snd (for_each (\<lambda>(root_dir, files). for_each (load_file os root_dir) files)
                  (walk os (library_path self)) (self\<lparr>songs := []\<rparr>)))"
    by (rule for_each_preserves)
  then show ?thesis
    by (auto simp: refresh_song_list_def log_warn_def keys_are_ids_def split: prod.splits option.splits)
qed

lemma reachable_keys: "reachable self \<Longrightarrow> keys_are_ids self"
proof (induction rule: reachable.induct)
  case (reach_init os lib no_brstm no_conflict no_auto_load)
  show ?case
    using refresh_song_list_keys_are_ids
    by (simp add: init_def Let_def keys_are_ids_def)
next
  case (reach_refresh self os)
  show ?case by (rule refresh_song_list_keys_are_ids)
next
  case (reach_import self os metafilename)
  then show ?case by (simp add: import_metadata_keys_are_ids)
qed

text \<open>
  Claim C8. In every object reachable through the constructor, \<open>refresh_song_list\<close> and
  \<open>_import_metadata\<close>, each key of the song dict is the id of the song stored under it.
\<close>

theorem reachable_keys_are_ids:
  "reachable self \<Longrightarrow> (k, s) \<in> set (songs self) \<Longrightarrow> song_id s = k"
  using reachable_keys [of self] by (auto simp: keys_are_ids_def)

section \<open>One song entry\<close>

lemma import_song_malformed:
  "make_song os path g sd = Inl e \<Longrightarrow> import_song os path g newsongs sd self = (Some e, self)"
  by (simp add: import_song_def)

lemma import_song_raises:
  assumes "make_song os path g sd = Inr newsong"
  shows "fst (import_song os path g [] sd self) =
     (if map_of (songs self) (song_id newsong) \<noteq> None \<and> \<not> disable_id_conflict_exception self
      then Some (SongIdConflictError (song_id newsong))
      else if \<not> isfile os (song_fullpath newsong) \<and> \<not> disable_nobrstm_exception self
      then Some (FileNotFoundError (song_fullpath newsong))
      else None)"
  using assms by (simp add: import_song_def Let_def)

lemma import_song_songs:
  assumes "make_song os path g sd = Inr newsong"
  shows "songs (snd (import_song os path g [] sd self)) =
     (if fst (import_song os path g [] sd self) = None
      then AList.update (song_id newsong) newsong (songs self)
      else songs self)"
  using assms by (simp add: import_song_def Let_def log_error_def split: option.splits)

lemma import_song_log:
  assumes "make_song os path g sd = Inr newsong"
  shows "log (snd (import_song os path g [] sd self)) =
     log self
     @ (case map_of (songs self) (song_id newsong) of
          Some old \<Rightarrow> [LogConflict (song_id newsong) (game_id (song_game old)) (game_id g)]
        | None \<Rightarrow> [])
     @ (if (map_of (songs self) (song_id newsong) = None \<or> disable_id_conflict_exception self)
           \<and> \<not> isfile os (song_fullpath newsong)
        then [LogNoBrstm (song_id newsong) (song_fullpath newsong)] else [])"
  using assms by (simp add: import_song_def Let_def log_error_def split: option.splits)

lemma import_song_config:
  "disable_id_conflict_exception (snd (import_song os path g newsongs sd self))
     = disable_id_conflict_exception self \<and>
   disable_nobrstm_exception (snd (import_song os path g newsongs sd self))
     = disable_nobrstm_exception self \<and>
   library_path (snd (import_song os path g newsongs sd self)) = library_path self"
  by (simp add: import_song_def Let_def log_error_def split: sum.splits option.splits)


lemma map_of_keys: "map_of al k \<noteq> None \<longleftrightarrow> k \<in> fst ` set al"
  by (simp add: map_of_eq_None_iff)

section \<open>One document\<close>

lemma import_metadata_loop:
  assumes "load_yaml os f = Inr gamedata" and "gd_songs gamedata = Some sds"
    and "make_game gamedata = Inr g"
  shows "import_metadata os f self = for_each (import_song os (dirname os f) g []) sds self"
  using assms by (simp add: import_metadata_def)

lemma for_each_import_config:
  "disable_id_conflict_exception (snd (for_each (import_song os path g newsongs) sds self))
     = disable_id_conflict_exception self \<and>
   disable_nobrstm_exception (snd (for_each (import_song os path g newsongs) sds self))
     = disable_nobrstm_exception self \<and>
   library_path (snd (for_each (import_song os path g newsongs) sds self)) = library_path self"
proof (induction sds arbitrary: self)
  case Nil
  show ?case by simp
next
  case (Cons sd sds)
  obtain r s2 where step: "import_song os path g newsongs sd self = (r, s2)"
    by (cases "import_song os path g newsongs sd self")
  with import_song_config [of os path g newsongs sd self]
  have "disable_id_conflict_exception s2 = disable_id_conflict_exception self
      \<and> disable_nobrstm_exception s2 = disable_nobrstm_exception self
      \<and> library_path s2 = library_path self"
    by simp
  with Cons.IH [of s2] step show ?case
    by (cases r) simp_all
qed

lemma import_song_done:
  assumes "import_song os path g [] sd self = (None, s2)"
  shows "\<exists>newsong. make_song os path g sd = Inr newsong
           \<and> songs s2 = AList.update (song_id newsong) newsong (songs self)"
proof (cases "make_song os path g sd")
  case (Inl e)
  with assms show ?thesis by (simp add: import_song_def)
next
  case (Inr newsong)
  from import_song_songs [OF Inr, of self] assms
  have "songs s2 = AList.update (song_id newsong) newsong (songs self)"
    by simp
  with Inr show ?thesis by blast
qed

lemma for_each_import_keys:
  "for_each (import_song os path g []) pre self = (None, s1) \<Longrightarrow>
   fst ` set (songs s1) = fst ` set (songs self) \<union> set (List.map_filter sd_id pre)"
proof (induction pre arbitrary: self)
  case Nil
  then show ?case by (simp add: List.map_filter_simps)
next
  case (Cons sd pre)
  obtain r s2 where step: "import_song os path g [] sd self = (r, s2)"
    by (cases "import_song os path g [] sd self")
  with Cons.prems have r: "r = None" and rest: "for_each (import_song os path g []) pre s2 = (None, s1)"
    by (cases r; simp)+
  from import_song_done [OF step [unfolded r]] obtain newsong where
    made: "make_song os path g sd = Inr newsong"
    and upd: "songs s2 = AList.update (song_id newsong) newsong (songs self)"
    by blast
  have "fst ` set (songs s2) = insert (song_id newsong) (fst ` set (songs self))"
    by (simp add: upd dom_update)
  with Cons.IH [OF rest] make_song_id [OF made] show ?case
    by (simp add: List.map_filter_simps)
qed

text \<open>
  Claim C6, as the code has it. Take a document whose entries before \<open>sd\<close> were imported
  without an exception, and let \<open>sd\<close> build the song \<open>newsong\<close>. At \<open>sd\<close> the import
  raises the id conflict exactly when the flag allows it and the id is a key of the dict,
  either from before this document or from an earlier entry of it. It raises the missing
  file exactly when the flag allows it, the file does not exist and no conflict was
  raised: the conflict is checked first. What the entry raises, the import raises.
\<close>

theorem import_metadata_raises_exactly:
  assumes "load_yaml os f = Inr gamedata"
    and "gd_songs gamedata = Some (pre @ sd # rest)"
    and "make_game gamedata = Inr g"
    and "for_each (import_song os (dirname os f) g []) pre self = (None, s1)"
    and "make_song os (dirname os f) g sd = Inr newsong"
  shows "(fst (import_song os (dirname os f) g [] sd s1) = Some (SongIdConflictError i) \<longleftrightarrow>
            i = song_id newsong \<and> \<not> disable_id_conflict_exception self
            \<and> (i \<in> fst ` set (songs self) \<or> i \<in> set (List.map_filter sd_id pre)))
       \<and> (fst (import_song os (dirname os f) g [] sd s1) = Some (FileNotFoundError p) \<longleftrightarrow>
            p = song_fullpath newsong \<and> \<not> disable_nobrstm_exception self \<and> \<not> isfile os p
            \<and> (disable_id_conflict_exception self
                 \<or> (song_id newsong \<notin> fst ` set (songs self)
                     \<and> song_id newsong \<notin> set (List.map_filter sd_id pre))))
       \<and> (\<forall>e. fst (import_song os (dirname os f) g [] sd s1) = Some e \<longrightarrow>
                fst (import_metadata os f self) = Some e)"
proof -
  let ?path = "dirname os f"
  have keys: "fst ` set (songs s1) = fst ` set (songs self) \<union> set (List.map_filter sd_id pre)"
    using assms(4) by (rule for_each_import_keys)
  have config: "disable_id_conflict_exception s1 = disable_id_conflict_exception self"
    "disable_nobrstm_exception s1 = disable_nobrstm_exception self"
    using for_each_import_config [of os ?path g "[]" pre self] assms(4) by simp_all
  have conflict: "map_of (songs s1) (song_id newsong) \<noteq> None \<longleftrightarrow>
      song_id newsong \<in> fst ` set (songs self) \<or> song_id newsong \<in> set (List.map_filter sd_id pre)"
    using keys by (simp only: map_of_keys) simp
  have raises: "fst (import_song os ?path g [] sd s1) =
     (if map_of (songs s1) (song_id newsong) \<noteq> None \<and> \<not> disable_id_conflict_exception self
      then Some (SongIdConflictError (song_id newsong))
      else if \<not> isfile os (song_fullpath newsong) \<and> \<not> disable_nobrstm_exception self
      then Some (FileNotFoundError (song_fullpath newsong))
      else None)"
    using import_song_raises [OF assms(5), of s1] config by simp
  have first: "fst (import_song os ?path g [] sd s1) = Some (SongIdConflictError i) \<longleftrightarrow>
            i = song_id newsong \<and> \<not> disable_id_conflict_exception self
            \<and> (i \<in> fst ` set (songs self) \<or> i \<in> set (List.map_filter sd_id pre))"
    using conflict by (auto simp: raises)
  have second: "fst (import_song os ?path g [] sd s1) = Some (FileNotFoundError p) \<longleftrightarrow>
            p = song_fullpath newsong \<and> \<not> disable_nobrstm_exception self \<and> \<not> isfile os p
            \<and> (disable_id_conflict_exception self
                 \<or> (song_id newsong \<notin> fst ` set (songs self)
                     \<and> song_id newsong \<notin> set (List.map_filter sd_id pre)))"
    using conflict by (auto simp: raises)
  have third: "fst (import_metadata os f self) = Some e"
    if "fst (import_song os ?path g [] sd s1) = Some e" for e
  proof -
    define s2 where "s2 = snd (import_song os ?path g [] sd s1)"
    have "import_song os ?path g [] sd s1 = (Some e, s2)"
      using that by (simp add: s2_def prod_eq_iff)
    then have "for_each (import_song os ?path g []) (pre @ sd # rest) self = (Some e, s2)"
      using assms(4) by (simp add: for_each_append)
    then show ?thesis
      using import_metadata_loop [OF assms(1-3), of self] by simp
  qed
  from first second third show ?thesis by blast
qed

section \<open>What an import leaves behind\<close>

lemma import_song_log_grows:
  "set (log self) \<subseteq> set (log (snd (import_song os path g newsongs sd self)))"
  by (auto simp: import_song_def Let_def log_error_def split: sum.splits option.splits)

lemma import_song_keys_grow:
  "fst ` set (songs self) \<subseteq> fst ` set (songs (snd (import_song os path g newsongs sd self)))"
  by (auto simp: import_song_def Let_def log_error_def dom_update split: sum.splits option.splits)

lemma for_each_import_log_grows:
  "set (log self) \<subseteq> set (log (snd (for_each (import_song os path g newsongs) sds self)))"
proof (rule for_each_preserves [where P = "\<lambda>s. set (log self) \<subseteq> set (log s)"])
  show "set (log self) \<subseteq> set (log (snd (import_song os path g newsongs sd s)))"
    if "set (log self) \<subseteq> set (log s)" for sd s
    using that import_song_log_grows [of s os path g newsongs sd] by blast
  show "set (log self) \<subseteq> set (log self)"
    by simp
qed

lemma for_each_import_keys_grow:
  "fst ` set (songs self)
     \<subseteq> fst ` set (songs (snd (for_each (import_song os path g newsongs) sds self)))"
proof (rule for_each_preserves [where P = "\<lambda>s. fst ` set (songs self) \<subseteq> fst ` set (songs s)"])
  show "fst ` set (songs self) \<subseteq> fst ` set (songs (snd (import_song os path g newsongs sd s)))"
    if "fst ` set (songs self) \<subseteq> fst ` set (songs s)" for sd s
    using that import_song_keys_grow [of s os path g newsongs sd] by blast
  show "fst ` set (songs self) \<subseteq> fst ` set (songs self)"
    by simp
qed

lemma map_of_find: "map_of (map (\<lambda>s. (f s, s)) xs) k = List.find (\<lambda>s. f s = k) xs"
  by (induction xs) auto

section \<open>A document whose import raises\<close>

lemma for_each_import_done:
  "for_each (import_song os path g []) pre self = (None, s1) \<Longrightarrow>
   \<exists>news. map (make_song os path g) pre = map Inr news
     \<and> map_of (songs s1) = map_of (songs self) ++ map_of (rev (map (\<lambda>s. (song_id s, s)) news))"
proof (induction pre arbitrary: self)
  case Nil
  then have "map (make_song os path g) [] = map Inr []
      \<and> map_of (songs s1) = map_of (songs self) ++ map_of (rev (map (\<lambda>s. (song_id s, s)) []))"
    by simp
  then show ?case by blast
next
  case (Cons sd pre)
  obtain r s2 where step: "import_song os path g [] sd self = (r, s2)"
    by (cases "import_song os path g [] sd self")
  with Cons.prems have r: "r = None" and rest: "for_each (import_song os path g []) pre s2 = (None, s1)"
    by (cases r; simp)+
  from import_song_done [OF step [unfolded r]] obtain n where
    made: "make_song os path g sd = Inr n"
    and upd: "songs s2 = AList.update (song_id n) n (songs self)"
    by blast
  from Cons.IH [OF rest] obtain news where
    news: "map (make_song os path g) pre = map Inr news"
    and maps: "map_of (songs s1) = map_of (songs s2) ++ map_of (rev (map (\<lambda>s. (song_id s, s)) news))"
    by blast
  have "map (make_song os path g) (sd # pre) = map Inr (n # news)"
    using made news by simp
  moreover have "map_of (songs s1)
      = map_of (songs self) ++ map_of (rev (map (\<lambda>s. (song_id s, s)) (n # news)))"
    by (simp add: maps upd update_conv')
  ultimately show ?case by blast
qed





section \<open>Refresh never raises\<close>






section \<open>Refresh as a pass over all metadata files\<close>
















section \<open>A well-formed document among failing ones\<close>





section \<open>Entries that raise nothing are logged and inserted\<close>

lemma for_each_import_permitted:
  assumes "map (make_song os path g) sds = map Inr news"
    and "disable_id_conflict_exception self
         \<or> (distinct (map song_id news) \<and> (\<forall>s \<in> set news. map_of (songs self) (song_id s) = None))"
    and "disable_nobrstm_exception self \<or> (\<forall>s \<in> set news. isfile os (song_fullpath s))"
  shows "fst (for_each (import_song os path g []) sds self) = None"
  using assms
proof (induction sds arbitrary: self news)
  case Nil
  show ?case by simp
next
  case (Cons sd sds)
  from Cons.prems(1) obtain n news' where news: "news = n # news'"
    and made: "make_song os path g sd = Inr n"
    and rest: "map (make_song os path g) sds = map Inr news'"
    by (cases news) auto
  have none: "fst (import_song os path g [] sd self) = None"
    using import_song_raises [OF made, of self] Cons.prems(2,3) news by auto
  define s2 where "s2 = snd (import_song os path g [] sd self)"
  have step: "import_song os path g [] sd self = (None, s2)"
    using none by (simp add: s2_def prod_eq_iff)
  have upd: "songs s2 = AList.update (song_id n) n (songs self)"
    using import_song_songs [OF made, of self] none by (simp add: s2_def)
  have flags: "disable_id_conflict_exception s2 = disable_id_conflict_exception self"
    "disable_nobrstm_exception s2 = disable_nobrstm_exception self"
    using import_song_config [of os path g "[]" sd self] by (simp_all add: s2_def)
  have fresh: "map_of (songs s2) (song_id s) = None"
    if "s \<in> set news'" and "distinct (map song_id news)"
      and "\<forall>s \<in> set news. map_of (songs self) (song_id s) = None" for s
  proof -
    from that(1) have "song_id s \<in> song_id ` set news'"
      by (rule imageI)
    moreover from that(2) news have "song_id n \<notin> song_id ` set news'"
      by simp
    ultimately have "song_id s \<noteq> song_id n"
      by metis
    moreover from that(1,3) news have "map_of (songs self) (song_id s) = None"
      by simp
    ultimately show ?thesis
      by (simp add: upd update_conv')
  qed
  have c: "disable_id_conflict_exception s2
      \<or> (distinct (map song_id news') \<and> (\<forall>s \<in> set news'. map_of (songs s2) (song_id s) = None))"
  proof (cases "disable_id_conflict_exception self")
    case True
    then show ?thesis by (simp add: flags)
  next
    case False
    with Cons.prems(2) have d: "distinct (map song_id news)"
      and f: "\<forall>s \<in> set news. map_of (songs self) (song_id s) = None"
      by blast+
    from d news have "distinct (map song_id news')"
      by simp
    with fresh d f show ?thesis
      by blast
  qed
  have m: "disable_nobrstm_exception s2 \<or> (\<forall>s \<in> set news'. isfile os (song_fullpath s))"
    using Cons.prems(3) news by (auto simp: flags)
  from Cons.IH [OF rest c m] step show ?case
    by simp
qed

lemma for_each_import_logs:
  assumes "for_each (import_song os path g []) sds self = (None, s1)"
    and "map (make_song os path g) sds = map Inr news"
  shows "(\<forall>s \<in> set news. \<not> isfile os (song_fullpath s) \<longrightarrow>
            LogNoBrstm (song_id s) (song_fullpath s) \<in> set (log s1))
       \<and> (\<forall>i < length news.
            song_id (news ! i) \<in> fst ` set (songs self) \<union> song_id ` set (take i news) \<longrightarrow>
            (\<exists>other. LogConflict (song_id (news ! i)) other (game_id g) \<in> set (log s1)))"
  using assms
proof (induction sds arbitrary: self news)
  case Nil
  then show ?case by simp
next
  case (Cons sd sds)
  from Cons.prems(2) obtain n news' where news: "news = n # news'"
    and made: "make_song os path g sd = Inr n"
    and rest: "map (make_song os path g) sds = map Inr news'"
    by (cases news) auto
  obtain r s2 where step: "import_song os path g [] sd self = (r, s2)"
    by (cases "import_song os path g [] sd self")
  with Cons.prems(1) have r: "r = None"
    and run: "for_each (import_song os path g []) sds s2 = (None, s1)"
    by (cases r; simp)+
  have none: "fst (import_song os path g [] sd self) = None"
    using step r by simp
  then have allowed: "map_of (songs self) (song_id n) = None \<or> disable_id_conflict_exception self"
    using import_song_raises [OF made, of self] by (auto split: if_splits)
  have log2: "log s2 = log self
     @ (case map_of (songs self) (song_id n) of
          Some old \<Rightarrow> [LogConflict (song_id n) (game_id (song_game old)) (game_id g)]
        | None \<Rightarrow> [])
     @ (if \<not> isfile os (song_fullpath n) then [LogNoBrstm (song_id n) (song_fullpath n)] else [])"
    using import_song_log [OF made, of self] step allowed by auto
  have upd: "songs s2 = AList.update (song_id n) n (songs self)"
    using import_song_songs [OF made, of self] none step by simp
  have keys2: "fst ` set (songs s2) = insert (song_id n) (fst ` set (songs self))"
    by (simp add: upd dom_update)
  have grows: "set (log s2) \<subseteq> set (log s1)"
    using for_each_import_log_grows [of s2 os path g "[]" sds] run by simp
  note IH = Cons.IH [OF run rest]
  have missing: "LogNoBrstm (song_id s) (song_fullpath s) \<in> set (log s1)"
    if "s \<in> set news" and "\<not> isfile os (song_fullpath s)" for s
  proof (cases "s \<in> set news'")
    case True
    with IH that(2) show ?thesis by blast
  next
    case False
    with that(1) news have "s = n" by simp
    with that(2) have "LogNoBrstm (song_id s) (song_fullpath s) \<in> set (log s2)"
      by (simp add: log2)
    with grows show ?thesis by blast
  qed
  have conflict: "\<exists>other. LogConflict (song_id (news ! i)) other (game_id g) \<in> set (log s1)"
    if "i < length news"
      and "song_id (news ! i) \<in> fst ` set (songs self) \<union> song_id ` set (take i news)" for i
  proof (cases i)
    case 0
    with that(2) news have "song_id n \<in> fst ` set (songs self)"
      by simp
    then obtain old where "map_of (songs self) (song_id n) = Some old"
      using map_of_keys [of "songs self" "song_id n"] by auto
    then have "LogConflict (song_id n) (game_id (song_game old)) (game_id g) \<in> set (log s2)"
      by (simp add: log2)
    with grows 0 news show ?thesis
      by auto
  next
    case (Suc j)
    with that(1) news have j: "j < length news'"
      by simp
    from that(2) Suc news have "song_id (news' ! j)
        \<in> fst ` set (songs s2) \<union> song_id ` set (take j news')"
      by (auto simp: keys2)
    with IH j have "\<exists>other. LogConflict (song_id (news' ! j)) other (game_id g) \<in> set (log s1)"
      by blast
    with Suc news show ?thesis
      by simp
  qed
  from missing conflict show ?case
    by blast
qed

text \<open>
  Claim C2, as the code has it. A disabled exception does not make the import skip the
  song. Take the entries \<open>sds\<close> at the head of a document, all well formed, such that
  either the id conflict exception is disabled or their ids are distinct and new to the
  dict, and either the missing file exception is disabled or their files exist. Then they
  are imported without an exception and the import goes on with the rest of the document.
  A song whose file is missing is logged, a song whose id is in the dict, from before the
  document or from an earlier entry of it, is logged, and all of them are inserted, in
  place of the song stored under the id: each id declared maps to the last song declared
  under it, every other key keeps its song.
\<close>

theorem import_metadata_logs_and_inserts:
  assumes "load_yaml os f = Inr gamedata"
    and "gd_songs gamedata = Some (sds @ rest)"
    and "make_game gamedata = Inr g"
    and "map (make_song os (dirname os f) g) sds = map Inr news"
    and "disable_id_conflict_exception self
         \<or> (distinct (map song_id news) \<and> (\<forall>s \<in> set news. song_id s \<notin> fst ` set (songs self)))"
    and "disable_nobrstm_exception self \<or> (\<forall>s \<in> set news. isfile os (song_fullpath s))"
  shows "\<exists>s1. for_each (import_song os (dirname os f) g []) sds self = (None, s1)
       \<and> import_metadata os f self = for_each (import_song os (dirname os f) g []) rest s1
       \<and> (\<forall>k. map_of (songs s1) k =
              (case List.find (\<lambda>s. song_id s = k) (rev news) of
                 Some s \<Rightarrow> Some s
               | None \<Rightarrow> map_of (songs self) k))
       \<and> (\<forall>s \<in> set news. \<not> isfile os (song_fullpath s) \<longrightarrow>
              LogNoBrstm (song_id s) (song_fullpath s) \<in> set (log s1))
       \<and> (\<forall>i < length news.
              song_id (news ! i) \<in> fst ` set (songs self) \<union> song_id ` set (take i news) \<longrightarrow>
              (\<exists>other. LogConflict (song_id (news ! i)) other (game_id g) \<in> set (log s1)))"
proof -
  let ?path = "dirname os f"
  let ?run = "for_each (import_song os ?path g []) sds self"
  have c: "disable_id_conflict_exception self
      \<or> (distinct (map song_id news) \<and> (\<forall>s \<in> set news. map_of (songs self) (song_id s) = None))"
    using assms(5) map_of_keys [of "songs self"] by blast
  have "fst ?run = None"
    using assms(4) c assms(6) by (rule for_each_import_permitted)
  then have run: "?run = (None, snd ?run)"
    by (simp add: prod_eq_iff)
  have rest: "import_metadata os f self = for_each (import_song os ?path g []) rest (snd ?run)"
    using import_metadata_loop [OF assms(1-3), of self] run
    by (simp add: for_each_append split: prod.splits)
  from for_each_import_done [OF run] obtain news' where
    "map (make_song os ?path g) sds = map Inr news'"
    and maps: "map_of (songs (snd ?run))
        = map_of (songs self) ++ map_of (rev (map (\<lambda>s. (song_id s, s)) news'))"
    by blast
  with assms(4) have "map Inr news' = (map Inr news :: (error + song) list)"
    by simp
  then have same: "news' = news"
    by (simp add: inj_map_eq_map)
  have keyed: "map_of (songs (snd ?run)) k =
      (case List.find (\<lambda>s. song_id s = k) (rev news) of
         Some s \<Rightarrow> Some s
       | None \<Rightarrow> map_of (songs self) k)" for k
    using map_of_find [of song_id "rev news" k]
    by (simp add: maps same map_add_def rev_map)
  from for_each_import_logs [OF run assms(4)] run rest keyed show ?thesis
    by blast
qed

section \<open>Keyword search against the scoring rule\<close>

lemma py_max_Max: "xs \<noteq> [] \<Longrightarrow> py_max xs = Inr (Max (set xs))"
  by (cases xs) (simp_all add: Max.set_eq_fold [symmetric])

lemma subratio_spec:
  assumes "haystack1 \<noteq> []" and "haystack2 \<noteq> []"
  shows "subratio ratio haystack1 haystack2 keyword =
     Inr (max (Max (ratio (lower keyword) ` set haystack1))
              (double (Max (ratio (lower keyword) ` set haystack2) * double (8 / 10))))"
  using assms by (simp add: subratio_def Let_def py_max_Max)

lemma keyword_loop_spec:
  assumes "split (lower (song_title s)) \<noteq> []"
    and "split (lower (game_title (song_game s))) \<noteq> []"
  shows "keyword_loop ratio (remdups (split (lower (song_title s))))
           (remdups (split (lower (game_title (song_game s))))) keywords r
         = Inr (foldl (\<lambda>total c. double (total + c)) r (spec_contributions ratio s keywords))"
proof (induction "keywords" arbitrary: r)
  case Nil
  show ?case by (simp add: spec_contributions_def)
next
  case (Cons kw kws)
  have sub: "subratio ratio (remdups (split (lower (song_title s))))
       (remdups (split (lower (game_title (song_game s))))) kw
     = Inr (spec_subscore ratio s kw)"
    using assms by (simp add: subratio_spec spec_subscore_def)
  have "spec_contributions ratio s (kw # kws) =
      (if spec_subscore ratio s kw > double (7 / 10)
       then spec_subscore ratio s kw # spec_contributions ratio s kws
       else spec_contributions ratio s kws)"
    by (simp add: spec_contributions_def)
  then show ?case
    by (simp add: sub Cons.IH)
qed

lemma song_ratio_spec:
  assumes "keywords \<noteq> []"
    and "split (lower (song_title s)) \<noteq> []"
    and "split (lower (game_title (song_game s))) \<noteq> []"
  shows "song_ratio ratio keywords s = Inr (spec_score ratio s keywords)"
  using assms(1) keyword_loop_spec [OF assms(2,3), of ratio "keywords" 0]
  by (simp add: song_ratio_def Let_def spec_score_def)

lemma song_loop_spec:
  assumes "keywords \<noteq> []"
    and "\<forall>s \<in> set ss. split (lower (song_title s)) \<noteq> []
           \<and> split (lower (game_title (song_game s))) \<noteq> []"
  shows "song_loop ratio keywords cutoff ss results =
     Inr (results @ map (\<lambda>s. (s, spec_score ratio s keywords))
                      (filter (\<lambda>s. spec_score ratio s keywords > cutoff) ss))"
  using assms(2)
proof (induction ss arbitrary: results)
  case Nil
  show ?case by simp
next
  case (Cons s ss)
  then have "song_ratio ratio keywords s = Inr (spec_score ratio s keywords)"
    using assms(1) by (simp add: song_ratio_spec)
  with Cons show ?case
    by simp
qed

text \<open>
  Claim C4, as the code has it. Let every song of the dict have at least one word in its
  title and in the title of its game, and let there be at least one keyword. Then
  \<open>search\<close> raises nothing, and a pair of a song and a ratio is in its result exactly
  when the song is in the dict, the ratio is the score of the scoring rule and the score
  is above the cutoff. The score is the sum, in keyword order, of the sub-scores
  \<open>max subratio1 (subratio2 * 0.8)\<close> that are above 0.7 (a sub-score at or below 0.7
  contributes 0), divided by the number of keywords, all in the arithmetic of doubles.
  The result is in descending order of the score.
\<close>

theorem search_scores:
  assumes "keywords \<noteq> []"
    and "\<forall>(k, s) \<in> set self_songs. split (lower (song_title s)) \<noteq> []
           \<and> split (lower (game_title (song_game s))) \<noteq> []"
  shows "\<exists>results. search ratio self_songs keywords cutoff = Inr results
           \<and> (\<forall>s r. (s, r) \<in> set results \<longleftrightarrow>
                  s \<in> snd ` set self_songs \<and> r = spec_score ratio s keywords
                  \<and> spec_score ratio s keywords > cutoff)
           \<and> sorted (map (\<lambda>p. - snd p) results)"
proof -
  let ?found = "map (\<lambda>s. (s, spec_score ratio s keywords))
                  (filter (\<lambda>s. spec_score ratio s keywords > cutoff) (map snd self_songs))"
  from assms(2) have "\<forall>s \<in> set (map snd self_songs). split (lower (song_title s)) \<noteq> []
      \<and> split (lower (game_title (song_game s))) \<noteq> []"
    by auto
  with assms(1) have "song_loop ratio keywords cutoff (map snd self_songs) [] = Inr ([] @ ?found)"
    by (rule song_loop_spec)
  then have run: "search ratio self_songs keywords cutoff = Inr (sort_key (\<lambda>p. - snd p) ?found)"
    by (simp add: search_def)
  have "(s, r) \<in> set (sort_key (\<lambda>p. - snd p) ?found) \<longleftrightarrow>
      s \<in> snd ` set self_songs \<and> r = spec_score ratio s keywords
      \<and> spec_score ratio s keywords > cutoff" for s r
    by auto
  moreover have "sorted (map (\<lambda>p. - snd p) (sort_key (\<lambda>p. - snd p) ?found))"
    by (rule sorted_sort_key)
  ultimately show ?thesis
    using run by blast
qed

section \<open>The concrete library\<close>

lemmas lib_defs = lib_os_def main_entry_def boss_entry_def title_entry_def town_entry_def
  opening_entry_def red_data_def blue_data_def green_data_def new_cat_def main_song_def
  boss_song_def title_song_def town_song_def opening_song_def red_game_def blue_game_def
  green_game_def after_red_def untitled_song_def pokemon_song_def intro_song_def
  abcdef_song_def

lemmas import_defs = import_metadata_def import_song_def make_game_def make_song_def
  log_error_def

lemma lib_metafiles: "metafiles lib_os ''lib'' = [''lib/red.yaml'', ''lib/bad.yaml'', ''lib/blue.yaml'']"
  by (simp add: metafiles_def lib_os_def endswith_def)

lemma lib_import_red:
  "import_metadata lib_os ''lib/red.yaml'' (new_cat b c)
     = (None, (new_cat b c)\<lparr>songs := [(''theme01'', main_song), (''boss'', boss_song)]\<rparr>)"
  by (simp add: import_defs lib_defs)

lemma lib_import_blue_default:
  "import_metadata lib_os ''lib/blue.yaml''
     ((new_cat False False)\<lparr>songs := [(''theme01'', main_song), (''boss'', boss_song)]\<rparr>)
   = (Some (SongIdConflictError ''theme01''),
      (new_cat False False)\<lparr>songs := [(''theme01'', main_song), (''boss'', boss_song)],
                             log := [LogConflict ''theme01'' ''red'' ''blue'']\<rparr>)"
  by (simp add: import_defs lib_defs)

lemma lib_import_blue_silent:
  "import_metadata lib_os ''lib/blue.yaml''
     ((new_cat True True)\<lparr>songs := [(''theme01'', main_song), (''boss'', boss_song)]\<rparr>)
   = (None,
      (new_cat True True)\<lparr>songs := [(''theme01'', title_song), (''boss'', boss_song),
                                       (''town'', town_song)],
                           log := [LogConflict ''theme01'' ''red'' ''blue'',
                                   LogNoBrstm ''town'' ''lib/town.brstm'']\<rparr>)"
  by (simp add: import_defs lib_defs)

lemma lib_import_blue_mixed:
  "import_metadata lib_os ''lib/blue.yaml''
     ((new_cat False True)\<lparr>songs := [(''theme01'', main_song), (''boss'', boss_song)]\<rparr>)
   = (Some (FileNotFoundError ''lib/town.brstm''),
      (new_cat False True)\<lparr>songs := [(''theme01'', title_song), (''boss'', boss_song)],
                            log := [LogConflict ''theme01'' ''red'' ''blue'',
                                    LogNoBrstm ''town'' ''lib/town.brstm'']\<rparr>)"
  by (simp add: import_defs lib_defs)

lemma lib_import_green_default:
  "import_metadata lib_os ''extra/green.yaml''
     ((new_cat False False)\<lparr>songs := [(''theme01'', main_song), (''boss'', boss_song)]\<rparr>)
   = (Some (SongIdConflictError ''theme01''),
      (new_cat False False)\<lparr>songs := [(''theme01'', main_song), (''boss'', boss_song)],
                             log := [LogConflict ''theme01'' ''red'' ''green'']\<rparr>)"
  by (simp add: import_defs lib_defs)

lemma lib_import_bad:
  "import_metadata lib_os ''lib/bad.yaml'' self = (Some YAMLError, self)"
  by (simp add: import_metadata_def lib_os_def)

lemmas refresh_defs = refresh_song_list_def load_file_def try_import_def endswith_def
  log_warn_def

lemma lib_refresh_default:
  "refresh_song_list lib_os (new_cat False False)
   = (None,
      (new_cat False False)\<lparr>songs := [(''theme01'', main_song), (''boss'', boss_song)],
                             log := [LogLoadException ''lib/bad.yaml'' YAMLError,
                                     LogConflict ''theme01'' ''red'' ''blue'',
                                     LogLoadException ''lib/blue.yaml''
                                       (SongIdConflictError ''theme01'')]\<rparr>)"
  by (simp add: refresh_defs import_defs lib_defs)

lemma lib_refresh_silent:
  "refresh_song_list lib_os (new_cat True True)
   = (None,
      (new_cat True True)\<lparr>songs := [(''theme01'', title_song), (''boss'', boss_song),
                                       (''town'', town_song)],
                           log := [LogLoadException ''lib/bad.yaml'' YAMLError,
                                   LogConflict ''theme01'' ''red'' ''blue'',
                                   LogNoBrstm ''town'' ''lib/town.brstm'']\<rparr>)"
  by (simp add: refresh_defs import_defs lib_defs)

lemma lib_refresh_mixed:
  "refresh_song_list lib_os (new_cat False True)
   = (None,
      (new_cat False True)\<lparr>songs := [(''theme01'', title_song), (''boss'', boss_song)],
                            log := [LogLoadException ''lib/bad.yaml'' YAMLError,
                                    LogConflict ''theme01'' ''red'' ''blue'',
                                    LogNoBrstm ''town'' ''lib/town.brstm'',
                                    LogLoadException ''lib/blue.yaml''
                                      (FileNotFoundError ''lib/town.brstm'')]\<rparr>)"
  by (simp add: refresh_defs import_defs lib_defs)

section \<open>The claims on the concrete library\<close>

text \<open>
  Claim C2 as stated fails. With both exceptions disabled, after a refresh of the library
  the dict holds under \<open>theme01\<close> the song of the game imported second, not the first
  one, and the song \<open>town\<close>, whose file is missing, is in the dict.
\<close>

theorem skip_with_warning_counterexample:
  "disable_id_conflict_exception (new_cat True True) \<and>
   disable_nobrstm_exception (new_cat True True) \<and>
   map_of (songs (snd (refresh_song_list lib_os (new_cat True True)))) ''theme01'' = Some title_song \<and>
   title_song \<noteq> main_song \<and>
   \<not> isfile lib_os (song_fullpath town_song) \<and>
   map_of (songs (snd (refresh_song_list lib_os (new_cat True True)))) ''town'' = Some town_song"
  by (simp add: lib_refresh_silent) (simp add: lib_defs)

theorem import_metadata_logs_and_inserts_witness:
  "load_yaml lib_os ''lib/blue.yaml'' = Inr blue_data \<and>
   gd_songs blue_data = Some ([title_entry, town_entry] @ []) \<and>
   make_game blue_data = Inr blue_game \<and>
   map (make_song lib_os (dirname lib_os ''lib/blue.yaml'') blue_game) [title_entry, town_entry]
     = map Inr [title_song, town_song] \<and>
   disable_id_conflict_exception (after_red True True) \<and>
   disable_nobrstm_exception (after_red True True) \<and>
   fst (import_metadata lib_os ''lib/blue.yaml'' (after_red True True)) = None \<and>
   map_of (songs (snd (import_metadata lib_os ''lib/blue.yaml'' (after_red True True)))) ''theme01''
     = Some title_song \<and>
   map_of (songs (snd (import_metadata lib_os ''lib/blue.yaml'' (after_red True True)))) ''boss''
     = Some boss_song \<and>
   LogNoBrstm ''town'' ''lib/town.brstm''
     \<in> set (log (snd (import_metadata lib_os ''lib/blue.yaml'' (after_red True True)))) \<and>
   LogConflict ''theme01'' ''red'' ''blue''
     \<in> set (log (snd (import_metadata lib_os ''lib/blue.yaml'' (after_red True True)))) \<and>
   \<not> disable_id_conflict_exception (new_cat True False) \<and>
   disable_nobrstm_exception (new_cat True False) \<and>
   fst (import_metadata lib_os ''lib/blue.yaml'' (new_cat True False)) = None \<and>
   map_of (songs (snd (import_metadata lib_os ''lib/blue.yaml'' (new_cat True False)))) ''town''
     = Some town_song"
proof -
  let ?f = "''lib/blue.yaml''"
  have h1: "load_yaml lib_os ?f = Inr blue_data"
    by (simp add: lib_os_def)
  have h2: "gd_songs blue_data = Some ([title_entry, town_entry] @ [])"
    by (simp add: blue_data_def)
  have h3: "make_game blue_data = Inr blue_game"
    by (simp add: make_game_def blue_data_def blue_game_def)
  have h4: "map (make_song lib_os (dirname lib_os ?f) blue_game) [title_entry, town_entry]
     = map Inr [title_song, town_song]"
    by (simp add: make_song_def lib_defs)
  have both: "disable_id_conflict_exception (after_red True True)"
    "disable_nobrstm_exception (after_red True True)"
    by (simp_all add: after_red_def new_cat_def)
  have one: "\<not> disable_id_conflict_exception (new_cat True False)"
    "disable_nobrstm_exception (new_cat True False)"
    by (simp_all add: new_cat_def)
  have clean: "distinct (map song_id [title_song, town_song])
      \<and> (\<forall>s \<in> set [title_song, town_song]. song_id s \<notin> fst ` set (songs (new_cat True False)))"
    by (simp add: lib_defs)
  from import_metadata_logs_and_inserts [OF h1 h2 h3 h4, of "after_red True True"] both
  obtain s1 where
    run1: "import_metadata lib_os ?f (after_red True True)
        = for_each (import_song lib_os (dirname lib_os ?f) blue_game []) [] s1"
    and keyed1: "\<forall>k. map_of (songs s1) k =
        (case List.find (\<lambda>s. song_id s = k) (rev [title_song, town_song]) of
           Some s \<Rightarrow> Some s | None \<Rightarrow> map_of (songs (after_red True True)) k)"
    and missing1: "\<forall>s \<in> set [title_song, town_song]. \<not> isfile lib_os (song_fullpath s) \<longrightarrow>
        LogNoBrstm (song_id s) (song_fullpath s) \<in> set (log s1)"
    and conflict1: "\<forall>i < length [title_song, town_song].
        song_id ([title_song, town_song] ! i)
          \<in> fst ` set (songs (after_red True True)) \<union> song_id ` set (take i [title_song, town_song]) \<longrightarrow>
        (\<exists>other. LogConflict (song_id ([title_song, town_song] ! i)) other (game_id blue_game)
           \<in> set (log s1))"
    by blast
  have done1: "import_metadata lib_os ?f (after_red True True) = (None, s1)"
    using run1 by simp
  from keyed1 have "map_of (songs s1) ''theme01'' =
      (case List.find (\<lambda>s. song_id s = ''theme01'') (rev [title_song, town_song]) of
         Some s \<Rightarrow> Some s | None \<Rightarrow> map_of (songs (after_red True True)) ''theme01'')"
    by blast
  then have theme: "map_of (songs s1) ''theme01'' = Some title_song"
    by (simp add: title_song_def town_song_def)
  from keyed1 have "map_of (songs s1) ''boss'' =
      (case List.find (\<lambda>s. song_id s = ''boss'') (rev [title_song, town_song]) of
         Some s \<Rightarrow> Some s | None \<Rightarrow> map_of (songs (after_red True True)) ''boss'')"
    by blast
  then have boss: "map_of (songs s1) ''boss'' = Some boss_song"
    by (simp add: title_song_def town_song_def after_red_def)
  from missing1 have logged: "LogNoBrstm ''town'' ''lib/town.brstm'' \<in> set (log s1)"
    by (simp add: town_song_def lib_os_def)
  have "\<exists>other. LogConflict ''theme01'' other ''blue'' \<in> set (log s1)"
    using conflict1 [rule_format, of 0] by (simp add: lib_defs)
  moreover have "log (snd (import_metadata lib_os ?f (after_red True True)))
      = [LogConflict ''theme01'' ''red'' ''blue'', LogNoBrstm ''town'' ''lib/town.brstm'']"
    by (simp add: import_defs lib_defs)
  ultimately have conflicted: "LogConflict ''theme01'' ''red'' ''blue'' \<in> set (log s1)"
    using done1 by auto
  from import_metadata_logs_and_inserts [OF h1 h2 h3 h4, of "new_cat True False"] one clean
  obtain s2 where
    run2: "import_metadata lib_os ?f (new_cat True False)
        = for_each (import_song lib_os (dirname lib_os ?f) blue_game []) [] s2"
    and keyed2: "\<forall>k. map_of (songs s2) k =
        (case List.find (\<lambda>s. song_id s = k) (rev [title_song, town_song]) of
           Some s \<Rightarrow> Some s | None \<Rightarrow> map_of (songs (new_cat True False)) k)"
    by blast
  have done2: "import_metadata lib_os ?f (new_cat True False) = (None, s2)"
    using run2 by simp
  from keyed2 have "map_of (songs s2) ''town'' =
      (case List.find (\<lambda>s. song_id s = ''town'') (rev [title_song, town_song]) of
         Some s \<Rightarrow> Some s | None \<Rightarrow> map_of (songs (new_cat True False)) ''town'')"
    by blast
  then have town: "map_of (songs s2) ''town'' = Some town_song"
    by (simp add: title_song_def town_song_def)
  from h1 h2 h3 h4 both one theme boss logged conflicted town show ?thesis
    by (simp add: done1 done2)
qed

text \<open>
  Claim C6 as stated fails. With both exceptions enabled, the third game declares
  \<open>theme01\<close>, which the dict has, with an audio file that does not exist: the import
  raises the id conflict and not the missing file.
\<close>

theorem missing_file_behind_conflict_counterexample:
  "\<not> disable_id_conflict_exception (after_red False False) \<and>
   \<not> disable_nobrstm_exception (after_red False False) \<and>
   make_song lib_os (dirname lib_os ''extra/green.yaml'') green_game opening_entry = Inr opening_song \<and>
   \<not> isfile lib_os (song_fullpath opening_song) \<and>
   fst (import_metadata lib_os ''extra/green.yaml'' (after_red False False))
     = Some (SongIdConflictError ''theme01'') \<and>
   fst (import_metadata lib_os ''extra/green.yaml'' (after_red False False))
     \<noteq> Some (FileNotFoundError (song_fullpath opening_song))"
  by (simp add: import_defs lib_defs)

theorem import_metadata_raises_exactly_witness:
  "load_yaml lib_os ''lib/blue.yaml'' = Inr blue_data \<and>
   gd_songs blue_data = Some ([title_entry] @ town_entry # []) \<and>
   make_game blue_data = Inr blue_game \<and>
   for_each (import_song lib_os (dirname lib_os ''lib/blue.yaml'') blue_game []) [title_entry]
       (new_cat False False)
     = (None, (new_cat False False)\<lparr>songs := [(''theme01'', title_song)]\<rparr>) \<and>
   make_song lib_os (dirname lib_os ''lib/blue.yaml'') blue_game town_entry = Inr town_song \<and>
   fst (import_metadata lib_os ''lib/blue.yaml'' (new_cat False False))
     = Some (FileNotFoundError ''lib/town.brstm'')"
proof -
  let ?path = "dirname lib_os ''lib/blue.yaml''"
  let ?s1 = "(new_cat False False)\<lparr>songs := [(''theme01'', title_song)]\<rparr>"
  have h1: "load_yaml lib_os ''lib/blue.yaml'' = Inr blue_data"
    by (simp add: lib_os_def)
  have h2: "gd_songs blue_data = Some ([title_entry] @ town_entry # [])"
    by (simp add: blue_data_def)
  have h3: "make_game blue_data = Inr blue_game"
    by (simp add: make_game_def blue_data_def blue_game_def)
  have h4: "for_each (import_song lib_os ?path blue_game []) [title_entry] (new_cat False False)
     = (None, ?s1)"
    by (simp add: import_defs lib_defs)
  have h5: "make_song lib_os ?path blue_game town_entry = Inr town_song"
    by (simp add: make_song_def lib_defs)
  note inst = import_metadata_raises_exactly [OF h1 h2 h3 h4 h5, of "''town''" "''lib/town.brstm''"]
  have "''lib/town.brstm'' = song_fullpath town_song \<and>
      \<not> disable_nobrstm_exception (new_cat False False) \<and> \<not> isfile lib_os ''lib/town.brstm'' \<and>
      (disable_id_conflict_exception (new_cat False False)
         \<or> (song_id town_song \<notin> fst ` set (songs (new_cat False False))
             \<and> song_id town_song \<notin> set (List.map_filter sd_id [title_entry])))"
    by (simp add: lib_defs List.map_filter_simps)
  with inst have "fst (import_song lib_os ?path blue_game [] town_entry ?s1)
      = Some (FileNotFoundError ''lib/town.brstm'')"
    by blast
  with inst have "fst (import_metadata lib_os ''lib/blue.yaml'' (new_cat False False))
      = Some (FileNotFoundError ''lib/town.brstm'')"
    by blast
  with h1 h2 h3 h4 h5 show ?thesis
    by blast
qed

theorem reachable_keys_are_ids_witness:
  "reachable (snd (refresh_song_list lib_os (snd (init lib_os ''lib'' False False True)))) \<and>
   (''boss'', boss_song)
     \<in> set (songs (snd (refresh_song_list lib_os (snd (init lib_os ''lib'' False False True))))) \<and>
   song_id boss_song = ''boss''"
proof -
  let ?self = "snd (refresh_song_list lib_os (snd (init lib_os ''lib'' False False True)))"
  have r: "reachable ?self"
    by (rule reach_refresh) (rule reach_init)
  have "snd (init lib_os ''lib'' False False True) = new_cat False False"
    by (simp add: init_def new_cat_def)
  then have m: "(''boss'', boss_song) \<in> set (songs ?self)"
    by (simp add: lib_refresh_default)
  from r m reachable_keys_are_ids [OF r m] show ?thesis
    by blast
qed





text \<open>
  The floor of the sub-score is strict: the code tests \<open>subratio > 0.7\<close>. The keyword
  \<open>pokemonabc\<close> has ratio 14/20 to the title word \<open>pokemondef\<close>, which as a double is
  the number \<open>0.7\<close> of the code; the sub-score contributes 0 and the song is not found
  at the cutoff 0.3.
\<close>

lemma search_subscore_at_floor:
  "lev_ratio ''pokemonabc'' ''pokemondef'' = 7 / 10 \<and>
   spec_subscore levenshtein_ratio pokemon_song ''pokemonabc'' = double (7 / 10) \<and>
   search levenshtein_ratio [(''pokemon'', pokemon_song)] [''pokemonabc''] (double (3 / 10)) = Inr []"
  unfolding lib_defs by code_simp

text \<open>
  The product is rounded: the keyword \<open>pokemon\<close> has ratio 0.875 to the word
  \<open>pokemonxy\<close> of the game title, and \<open>0.875 * 0.8\<close> is the double above \<open>0.7\<close>,
  so the song is found.
\<close>

lemma search_rounded_product:
  "lev_ratio ''pokemon'' ''pokemonxy'' = 7 / 8 \<and>
   double (7 / 10) < double (7 / 8 * double (8 / 10)) \<and>
   search levenshtein_ratio [(''intro'', intro_song)] [''pokemon''] (double (3 / 10))
     = Inr [(intro_song, double (7 / 8 * double (8 / 10)))]"
  unfolding lib_defs by code_simp

text \<open>
  The sum and the quotient are rounded: three keywords of sub-score 0.8 among eight give
  \<open>(0.8 + 0.8 + 0.8) / 8\<close>, which is the double above \<open>0.3\<close>, so the song is found at
  the cutoff 0.3.
\<close>

lemma search_rounded_sum:
  "lev_ratio ''abcd'' ''abcdef'' = 8 / 10 \<and>
   double (3 / 10) < double (double (double (double (8 / 10) + double (8 / 10)) + double (8 / 10)) / 8) \<and>
   search levenshtein_ratio [(''abcdef'', abcdef_song)]
     [''abcd'', ''abcd'', ''abcd'', ''zzzz'', ''zzzz'', ''zzzz'', ''zzzz'', ''zzzz''] (double (3 / 10))
     = Inr [(abcdef_song,
             double (double (double (double (8 / 10) + double (8 / 10)) + double (8 / 10)) / 8))]"
  unfolding lib_defs by code_simp

text \<open>
  Claim C4 as stated fails for a song whose title has no word: the maximum over its
  empty haystack raises \<open>ValueError\<close> and the search returns nothing at all.
\<close>

theorem search_untitled_song_counterexample:
  "split (lower (song_title untitled_song)) = [] \<and>
   search levenshtein_ratio [(''boss'', boss_song), (''untitled'', untitled_song)] [''boss'']
     (double (3 / 10)) = Inl ValueError"
  unfolding lib_defs by code_simp

theorem search_scores_witness:
  "[''boss''] \<noteq> [] \<and>
   split (lower (song_title boss_song)) = [''boss'', ''theme''] \<and>
   split (lower (game_title (song_game boss_song))) = [''red''] \<and>
   spec_score levenshtein_ratio boss_song [''boss''] = 1 \<and>
   (\<exists>results. search levenshtein_ratio [(''boss'', boss_song)] [''boss''] (double (3 / 10))
        = Inr results
      \<and> (boss_song, 1) \<in> set results)"
proof -
  have h1: "[''boss''] \<noteq> []"
    by simp
  have words: "split (lower (song_title boss_song)) = [''boss'', ''theme'']"
    "split (lower (game_title (song_game boss_song))) = [''red'']"
    unfolding lib_defs by code_simp+
  then have h2: "\<forall>(k, s) \<in> set [(''boss'', boss_song)]. split (lower (song_title s)) \<noteq> []
      \<and> split (lower (game_title (song_game s))) \<noteq> []"
    by simp
  have score: "spec_score levenshtein_ratio boss_song [''boss''] = 1"
    unfolding lib_defs by code_simp
  have cutoff: "double (3 / 10) < 1"
    by code_simp
  from search_scores [OF h1 h2, of levenshtein_ratio "double (3 / 10)"] obtain results where
    run: "search levenshtein_ratio [(''boss'', boss_song)] [''boss''] (double (3 / 10)) = Inr results"
    and mem: "\<forall>s r. (s, r) \<in> set results \<longleftrightarrow>
        s \<in> snd ` set [(''boss'', boss_song)] \<and> r = spec_score levenshtein_ratio s [''boss'']
        \<and> spec_score levenshtein_ratio s [''boss''] > double (3 / 10)"
    by blast
  from mem score cutoff have "(boss_song, 1) \<in> set results"
    by simp
  with h1 words score run show ?thesis
    by blast
qed

end
